theory Spec2Isabelle
  imports Complex_Main
begin

section \<open>Python numerics\<close>

text \<open>
  Python's \<open>float\<close> is read as \<open>real\<close> and its \<open>int\<close> as \<open>int\<close>: rounding of the
  binary floating-point format is not part of this development. \<open>int(r)\<close> truncates
  towards zero; \<open>a % b\<close> on floats with a positive divisor has the sign of the divisor.
\<close>

definition py_int :: "real \<Rightarrow> int" where
  "py_int r = (if 0 \<le> r then \<lfloor>r\<rfloor> else \<lceil>r\<rceil>)"

definition py_fmod :: "real \<Rightarrow> real \<Rightarrow> real" where
  "py_fmod a b = a - b * of_int \<lfloor>a / b\<rfloor>"

definition radians :: "real \<Rightarrow> real" where
  "radians alpha = alpha * pi / 180"

section \<open>map\_data.py: points and image dimensions\<close>

text \<open>
  Field names carry a short prefix of their class (\<open>p_\<close> for \<open>Point\<close>, \<open>d_\<close> for
  \<open>ImageDimensions\<close>, and so on), since several classes share field names and some
  names (\<open>top\<close>, \<open>size\<close>, \<open>rotate\<close>) are constants of HOL.
\<close>

record Point =
  p_x :: real
  p_y :: real
  p_a :: "real option"

definition mk_Point :: "real \<Rightarrow> real \<Rightarrow> Point" where
  "mk_Point vx vy = \<lparr>p_x = vx, p_y = vy, p_a = None\<rparr>"

record ImageDimensions =
  d_top :: int
  d_left :: int
  d_height :: int
  d_width :: int
  d_scale :: real
  d_rotation :: real
  d_img_transformation :: "Point \<Rightarrow> Point"

text \<open>\<open>ImageDimensions.to_img\<close>\<close>

definition to_img :: "ImageDimensions \<Rightarrow> Point \<Rightarrow> Point" where
  "to_img d point =
     (let p = d_img_transformation d point
      in mk_Point ((p_x p - of_int (d_left d)) * d_scale d)
                  ((of_int (d_height d) - (p_y p - of_int (d_top d)) - 1) * d_scale d))"

text \<open>\<open>Point.__mul__\<close>\<close>

definition point_mul :: "Point \<Rightarrow> real \<Rightarrow> Point" where
  "point_mul p other = \<lparr>p_x = p_x p * other, p_y = p_y p * other, p_a = p_a p\<rparr>"

text \<open>
  \<open>Point.rotated\<close>. The \<open>while alpha > 0\<close> loop of the 90-degree branch is
  \<open>rotate_steps\<close>: each round maps \<open>(x, y)\<close> to \<open>(y, w - x)\<close>, swaps \<open>w\<close> and \<open>h\<close>
  and takes 90 from \<open>alpha\<close>.
\<close>

function rotate_steps :: "real \<Rightarrow> real \<Rightarrow> real \<Rightarrow> int \<Rightarrow> int \<Rightarrow> real \<times> real" where
  "rotate_steps alpha vx vy w h =
     (if alpha > 0 then rotate_steps (alpha - 90) vy (of_int w - vx) h w else (vx, vy))"
  by pat_completeness auto
termination
proof (relation "measure (\<lambda>(alpha, vx, vy, w, h). nat \<lceil>alpha / 90\<rceil>)")
  show "wf (measure (\<lambda>(alpha, vx, vy, w, h). nat \<lceil>alpha / 90\<rceil>))" by simp
next
  fix alpha vx vy :: real and w h :: int
  assume pos: "0 < alpha"
  have "(alpha - 90) / 90 = alpha / 90 - 1" by (simp add: diff_divide_distrib)
  then have "\<lceil>(alpha - 90) / 90\<rceil> = \<lceil>alpha / 90 - 1\<rceil>" by (simp only:)
  then have step: "\<lceil>(alpha - 90) / 90\<rceil> = \<lceil>alpha / 90\<rceil> - 1" by (simp only: ceiling_diff_one)
  from pos have "0 < alpha / 90" by simp
  then have "0 < \<lceil>alpha / 90\<rceil>" by (simp add: ceiling_less_iff)
  with step show "((alpha - 90, vy, of_int w - vx, h, w), (alpha, vx, vy, w, h))
      \<in> measure (\<lambda>(alpha, vx, vy, w, h). nat \<lceil>alpha / 90\<rceil>)"
    by simp
qed

definition rotated_fast :: "ImageDimensions \<Rightarrow> Point \<Rightarrow> Point" where
  "rotated_fast d p =
     (let alpha = d_rotation d;
          w = py_int (of_int (d_width d) * d_scale d);
          h = py_int (of_int (d_height d) * d_scale d);
          (vx, vy) = rotate_steps alpha (p_x p) (p_y p) w h
      in mk_Point vx vy)"

definition rotated_general :: "ImageDimensions \<Rightarrow> Point \<Rightarrow> Point" where
  "rotated_general d p =
     (let alpha = d_rotation d;
          w = real_of_int (py_int (of_int (d_width d) * d_scale d));
          h = real_of_int (py_int (of_int (d_height d) * d_scale d));
          vx = p_x p;
          vy = p_y p;
          xm = w / 2;
          ym = h / 2;
          a = radians alpha;
          wr = \<bar>w * cos a\<bar> + \<bar>h * sin a\<bar>;
          hr = \<bar>w * sin a\<bar> + \<bar>h * cos a\<bar>;
          xr = (vx - xm) * cos a + (vy - ym) * sin a + wr / 2;
          yr = - (vx - xm) * sin a + (vy - ym) * cos a + hr / 2
      in mk_Point xr yr)"

definition rotated :: "ImageDimensions \<Rightarrow> Point \<Rightarrow> Point" where
  "rotated d p =
     (if py_fmod (d_rotation d) 90 = 0 then rotated_fast d p else rotated_general d p)"

section \<open>config/color.py\<close>

text \<open>
  A \<open>Color\<close> is a 3-tuple or a 4-tuple of channel values. The members of the
  \<open>StrEnum\<close> classes are their string values: the dictionaries are keyed by them and
  \<open>draw_map\<close> compares them as strings.
\<close>

datatype Color = RGB int int int | RGBA int int int int

fun color_len :: "Color \<Rightarrow> nat" where
  "color_len (RGB r g b) = 3"
| "color_len (RGBA r g b al) = 4"

fun color_red :: "Color \<Rightarrow> int" where
  "color_red (RGB r g b) = r"
| "color_red (RGBA r g b al) = r"

fun color_green :: "Color \<Rightarrow> int" where
  "color_green (RGB r g b) = g"
| "color_green (RGBA r g b al) = g"

fun color_blue :: "Color \<Rightarrow> int" where
  "color_blue (RGB r g b) = b"
| "color_blue (RGBA r g b al) = b"

abbreviation SupportedColor_CARPETS :: string where
  "SupportedColor_CARPETS \<equiv> ''color_carpets''"

abbreviation SupportedColor_CHARGER :: string where
  "SupportedColor_CHARGER \<equiv> ''color_charger''"

abbreviation SupportedColor_CHARGER_OUTLINE :: string where
  "SupportedColor_CHARGER_OUTLINE \<equiv> ''color_charger_outline''"

abbreviation SupportedColor_CLEANED_AREA :: string where
  "SupportedColor_CLEANED_AREA \<equiv> ''color_cleaned_area''"

abbreviation SupportedColor_GOTO_PATH :: string where
  "SupportedColor_GOTO_PATH \<equiv> ''color_goto_path''"

abbreviation SupportedColor_GREY_WALL :: string where
  "SupportedColor_GREY_WALL \<equiv> ''color_grey_wall''"

abbreviation SupportedColor_IGNORED_OBSTACLE :: string where
  "SupportedColor_IGNORED_OBSTACLE \<equiv> ''color_ignored_obstacle''"

abbreviation SupportedColor_IGNORED_OBSTACLE_WITH_PHOTO :: string where
  "SupportedColor_IGNORED_OBSTACLE_WITH_PHOTO \<equiv> ''color_ignored_obstacle_with_photo''"

abbreviation SupportedColor_MAP_INSIDE :: string where
  "SupportedColor_MAP_INSIDE \<equiv> ''color_map_inside''"

abbreviation SupportedColor_MAP_OUTSIDE :: string where
  "SupportedColor_MAP_OUTSIDE \<equiv> ''color_map_outside''"

abbreviation SupportedColor_MAP_WALL :: string where
  "SupportedColor_MAP_WALL \<equiv> ''color_map_wall''"

abbreviation SupportedColor_MAP_WALL_V2 :: string where
  "SupportedColor_MAP_WALL_V2 \<equiv> ''color_map_wall_v2''"

abbreviation SupportedColor_MOP_PATH :: string where
  "SupportedColor_MOP_PATH \<equiv> ''color_mop_path''"

abbreviation SupportedColor_NEW_DISCOVERED_AREA :: string where
  "SupportedColor_NEW_DISCOVERED_AREA \<equiv> ''color_new_discovered_area''"

abbreviation SupportedColor_NO_CARPET_ZONES :: string where
  "SupportedColor_NO_CARPET_ZONES \<equiv> ''color_no_carpet_zones''"

abbreviation SupportedColor_NO_CARPET_ZONES_OUTLINE :: string where
  "SupportedColor_NO_CARPET_ZONES_OUTLINE \<equiv> ''color_no_carpet_zones_outline''"

abbreviation SupportedColor_NO_GO_ZONES :: string where
  "SupportedColor_NO_GO_ZONES \<equiv> ''color_no_go_zones''"

abbreviation SupportedColor_NO_GO_ZONES_OUTLINE :: string where
  "SupportedColor_NO_GO_ZONES_OUTLINE \<equiv> ''color_no_go_zones_outline''"

abbreviation SupportedColor_NO_MOPPING_ZONES :: string where
  "SupportedColor_NO_MOPPING_ZONES \<equiv> ''color_no_mop_zones''"

abbreviation SupportedColor_NO_MOPPING_ZONES_OUTLINE :: string where
  "SupportedColor_NO_MOPPING_ZONES_OUTLINE \<equiv> ''color_no_mop_zones_outline''"

abbreviation SupportedColor_OBSTACLE :: string where
  "SupportedColor_OBSTACLE \<equiv> ''color_obstacle''"

abbreviation SupportedColor_OBSTACLE_WITH_PHOTO :: string where
  "SupportedColor_OBSTACLE_WITH_PHOTO \<equiv> ''color_obstacle_with_photo''"

abbreviation SupportedColor_PATH :: string where
  "SupportedColor_PATH \<equiv> ''color_path''"

abbreviation SupportedColor_PREDICTED_PATH :: string where
  "SupportedColor_PREDICTED_PATH \<equiv> ''color_predicted_path''"

abbreviation SupportedColor_ROBO :: string where
  "SupportedColor_ROBO \<equiv> ''color_robo''"

abbreviation SupportedColor_ROBO_OUTLINE :: string where
  "SupportedColor_ROBO_OUTLINE \<equiv> ''color_robo_outline''"

abbreviation SupportedColor_ROOM_NAMES :: string where
  "SupportedColor_ROOM_NAMES \<equiv> ''color_room_names''"

abbreviation SupportedColor_SCAN :: string where
  "SupportedColor_SCAN \<equiv> ''color_scan''"

abbreviation SupportedColor_UNKNOWN :: string where
  "SupportedColor_UNKNOWN \<equiv> ''color_unknown''"

abbreviation SupportedColor_VIRTUAL_WALLS :: string where
  "SupportedColor_VIRTUAL_WALLS \<equiv> ''color_virtual_walls''"

abbreviation SupportedColor_ZONES :: string where
  "SupportedColor_ZONES \<equiv> ''color_zones''"

abbreviation SupportedColor_ZONES_OUTLINE :: string where
  "SupportedColor_ZONES_OUTLINE \<equiv> ''color_zones_outline''"

text \<open>The members of the enumeration \<open>SupportedColor\<close>, in the order of the source.\<close>

definition SupportedColor_members :: "string list" where
  "SupportedColor_members =
     [SupportedColor_CARPETS,
      SupportedColor_CHARGER,
      SupportedColor_CHARGER_OUTLINE,
      SupportedColor_CLEANED_AREA,
      SupportedColor_GOTO_PATH,
      SupportedColor_GREY_WALL,
      SupportedColor_IGNORED_OBSTACLE,
      SupportedColor_IGNORED_OBSTACLE_WITH_PHOTO,
      SupportedColor_MAP_INSIDE,
      SupportedColor_MAP_OUTSIDE,
      SupportedColor_MAP_WALL,
      SupportedColor_MAP_WALL_V2,
      SupportedColor_MOP_PATH,
      SupportedColor_NEW_DISCOVERED_AREA,
      SupportedColor_NO_CARPET_ZONES,
      SupportedColor_NO_CARPET_ZONES_OUTLINE,
      SupportedColor_NO_GO_ZONES,
      SupportedColor_NO_GO_ZONES_OUTLINE,
      SupportedColor_NO_MOPPING_ZONES,
      SupportedColor_NO_MOPPING_ZONES_OUTLINE,
      SupportedColor_OBSTACLE,
      SupportedColor_OBSTACLE_WITH_PHOTO,
      SupportedColor_PATH,
      SupportedColor_PREDICTED_PATH,
      SupportedColor_ROBO,
      SupportedColor_ROBO_OUTLINE,
      SupportedColor_ROOM_NAMES,
      SupportedColor_SCAN,
      SupportedColor_UNKNOWN,
      SupportedColor_VIRTUAL_WALLS,
      SupportedColor_ZONES,
      SupportedColor_ZONES_OUTLINE]"

text \<open>\<open>ColorsPalette.COLORS\<close>, in the order of the source.\<close>

definition COLORS :: "(string \<times> Color) list" where
  "COLORS =
     [(SupportedColor_MAP_INSIDE, RGB 32 115 185),
      (SupportedColor_MAP_OUTSIDE, RGB 19 87 148),
      (SupportedColor_MAP_WALL, RGB 100 196 254),
      (SupportedColor_MAP_WALL_V2, RGB 93 109 126),
      (SupportedColor_GREY_WALL, RGB 93 109 126),
      (SupportedColor_CLEANED_AREA, RGBA 127 127 127 127),
      (SupportedColor_PATH, RGB 147 194 238),
      (SupportedColor_GOTO_PATH, RGB 0 255 0),
      (SupportedColor_PREDICTED_PATH, RGB 255 255 0),
      (SupportedColor_ZONES, RGBA 173 216 255 143),
      (SupportedColor_ZONES_OUTLINE, RGB 173 216 255),
      (SupportedColor_VIRTUAL_WALLS, RGB 255 0 0),
      (SupportedColor_NEW_DISCOVERED_AREA, RGB 64 64 64),
      (SupportedColor_CARPETS, RGB 169 247 169),
      (SupportedColor_NO_CARPET_ZONES, RGBA 255 33 55 127),
      (SupportedColor_NO_CARPET_ZONES_OUTLINE, RGB 255 0 0),
      (SupportedColor_NO_GO_ZONES, RGBA 255 33 55 127),
      (SupportedColor_NO_GO_ZONES_OUTLINE, RGB 255 0 0),
      (SupportedColor_NO_MOPPING_ZONES, RGBA 163 130 211 127),
      (SupportedColor_NO_MOPPING_ZONES_OUTLINE, RGB 163 130 211),
      (SupportedColor_CHARGER, RGBA 102 254 218 127),
      (SupportedColor_CHARGER_OUTLINE, RGBA 102 254 218 127),
      (SupportedColor_ROBO, RGB 255 255 255),
      (SupportedColor_ROBO_OUTLINE, RGB 0 0 0),
      (SupportedColor_ROOM_NAMES, RGB 0 0 0),
      (SupportedColor_OBSTACLE, RGBA 0 0 0 128),
      (SupportedColor_IGNORED_OBSTACLE, RGBA 0 0 0 128),
      (SupportedColor_OBSTACLE_WITH_PHOTO, RGBA 0 0 0 128),
      (SupportedColor_IGNORED_OBSTACLE_WITH_PHOTO, RGBA 0 0 0 128),
      (SupportedColor_UNKNOWN, RGB 0 0 0),
      (SupportedColor_SCAN, RGB 223 223 223)]"

text \<open>\<open>ColorsPalette.ROOM_COLORS\<close>\<close>

definition ROOM_COLORS :: "(string \<times> Color) list" where
  "ROOM_COLORS =
     [(''1'', RGB 240 178 122),
      (''2'', RGB 133 193 233),
      (''3'', RGB 217 136 128),
      (''4'', RGB 52 152 219),
      (''5'', RGB 205 97 85),
      (''6'', RGB 243 156 18),
      (''7'', RGB 88 214 141),
      (''8'', RGB 245 176 65),
      (''9'', RGB 252 212 81),
      (''10'', RGB 72 201 176),
      (''11'', RGB 84 153 199),
      (''12'', RGB 133 193 233),
      (''13'', RGB 245 176 65),
      (''14'', RGB 82 190 128),
      (''15'', RGB 72 201 176),
      (''16'', RGB 165 105 189)]"


text \<open>
  \<open>dict.get(key, default)\<close>, on a dictionary given as a map.
\<close>

definition dict_get :: "('k \<rightharpoonup> 'v) \<Rightarrow> 'k \<Rightarrow> 'v \<Rightarrow> 'v" where
  "dict_get m k dflt = (case m k of None \<Rightarrow> dflt | Some v \<Rightarrow> v)"

text \<open>
  \<open>ColorsPalette\<close>: the two override dictionaries. The third attribute, the
  \<open>Random\<close> instance, is not a field here: the number that \<open>randint(1, 16)\<close>
  returns in a call of \<open>get_room_color\<close> is an argument of that call.
\<close>

record ColorsPalette =
  overriden_colors :: "string \<rightharpoonup> Color"
  overriden_room_colors :: "string \<rightharpoonup> Color"

text \<open>\<open>ColorsPalette.__init__\<close>: \<open>None\<close> stands for the empty dictionary.\<close>

definition ColorsPalette_init ::
  "(string \<rightharpoonup> Color) option \<Rightarrow> (string \<rightharpoonup> Color) option \<Rightarrow> ColorsPalette" where
  "ColorsPalette_init colors_dict room_colors =
     \<lparr>overriden_colors = (case colors_dict of None \<Rightarrow> Map.empty | Some c \<Rightarrow> c),
      overriden_room_colors = (case room_colors of None \<Rightarrow> Map.empty | Some c \<Rightarrow> c)\<rparr>"

text \<open>\<open>ColorsPalette.get_color\<close>\<close>

definition get_color :: "ColorsPalette \<Rightarrow> string \<Rightarrow> Color" where
  "get_color pal color_name =
     dict_get (overriden_colors pal) color_name
       (dict_get (map_of COLORS) color_name
          (dict_get (map_of COLORS) SupportedColor_UNKNOWN (RGB 0 0 0)))"

text \<open>
  \<open>str(n)\<close> for an integer: the decimal digits, after a minus sign when negative.
\<close>

definition digit_char :: "nat \<Rightarrow> char" where
  "digit_char k = ''0123456789'' ! k"

fun nat_digits :: "nat \<Rightarrow> string" where
  "nat_digits n = (if n < 10 then [digit_char n] else nat_digits (n div 10) @ [digit_char (n mod 10)])"

definition py_str :: "int \<Rightarrow> string" where
  "py_str n = (if n < 0 then CHR ''-'' # nat_digits (nat (- n)) else nat_digits (nat n))"

text \<open>
  \<open>ColorsPalette.get_room_color\<close>. A room id is an \<open>int\<close> or a \<open>str\<close>; the builtin
  \<open>int(str)\<close> is the argument \<open>int_of_str\<close>, which gives \<open>None\<close> where Python raises
  \<open>ValueError\<close>. The argument \<open>rnd\<close> is what \<open>self._random.randint(1, 16)\<close> returns.
\<close>

datatype room_id = IntId int | StrId string

datatype error = ValueError

definition get_room_color ::
  "(string \<Rightarrow> int option) \<Rightarrow> ColorsPalette \<Rightarrow> int \<Rightarrow> room_id \<Rightarrow> error + Color" where
  "get_room_color int_of_str pal rnd rid =
     (case (case rid of IntId n \<Rightarrow> Some n | StrId s \<Rightarrow> int_of_str s) of
        None \<Rightarrow> Inl ValueError
      | Some n \<Rightarrow>
          (let n' = (if n > int (length ROOM_COLORS)
                     then (n - 1) mod int (length ROOM_COLORS) + 1 else n);
               key = py_str n'
           in Inr (dict_get (overriden_room_colors pal) key
                     (dict_get (map_of ROOM_COLORS) key
                        (dict_get (map_of ROOM_COLORS) (py_str rnd) (RGB 0 0 0))))))"

text \<open>
  A reading of \<open>int(str)\<close> for concrete inputs. It reads non-empty strings of ASCII
  digits only; the signs, surrounding blanks and underscores that Python's \<open>int\<close> also
  accepts are not read and give \<open>None\<close> here.
\<close>

fun digits_value :: "string \<Rightarrow> nat \<Rightarrow> nat option" where
  "digits_value [] acc = Some acc"
| "digits_value (c # cs) acc =
     (if 48 \<le> (of_char c :: nat) \<and> (of_char c :: nat) \<le> 57
      then digits_value cs (10 * acc + (of_char c - 48)) else None)"

definition decimal_int :: "string \<Rightarrow> int option" where
  "decimal_int s = (if s = [] then None else map_option int (digits_value s 0))"

section \<open>config/size.py\<close>

abbreviation Size_CHARGER_RADIUS :: string where
  "Size_CHARGER_RADIUS \<equiv> ''charger_radius''"

abbreviation Size_IGNORED_OBSTACLE_RADIUS :: string where
  "Size_IGNORED_OBSTACLE_RADIUS \<equiv> ''ignored_obstacle_radius''"

abbreviation Size_IGNORED_OBSTACLE_WITH_PHOTO_RADIUS :: string where
  "Size_IGNORED_OBSTACLE_WITH_PHOTO_RADIUS \<equiv> ''ignored_obstacle_with_photo_radius''"

abbreviation Size_MOP_PATH_WIDTH :: string where
  "Size_MOP_PATH_WIDTH \<equiv> ''mop_path_width''"

abbreviation Size_OBSTACLE_RADIUS :: string where
  "Size_OBSTACLE_RADIUS \<equiv> ''obstacle_radius''"

abbreviation Size_OBSTACLE_WITH_PHOTO_RADIUS :: string where
  "Size_OBSTACLE_WITH_PHOTO_RADIUS \<equiv> ''obstacle_with_photo_radius''"

abbreviation Size_VACUUM_RADIUS :: string where
  "Size_VACUUM_RADIUS \<equiv> ''vacuum_radius''"

abbreviation Size_PATH_WIDTH :: string where
  "Size_PATH_WIDTH \<equiv> ''path_width''"

definition SIZES :: "(string \<times> real) list" where
  "SIZES =
     [(Size_VACUUM_RADIUS, 6),
      (Size_PATH_WIDTH, 1),
      (Size_IGNORED_OBSTACLE_RADIUS, 3),
      (Size_IGNORED_OBSTACLE_WITH_PHOTO_RADIUS, 3),
      (Size_OBSTACLE_RADIUS, 3),
      (Size_OBSTACLE_WITH_PHOTO_RADIUS, 3),
      (Size_CHARGER_RADIUS, 6)]"

record Sizes =
  overriden_sizes :: "string \<rightharpoonup> real"

definition get_size :: "Sizes \<Rightarrow> string \<Rightarrow> real" where
  "get_size sz name = dict_get (overriden_sizes sz) name (dict_get (map_of SIZES) name 1)"

section \<open>config/drawable.py, config/image\_config.py, config/text.py\<close>

abbreviation Drawable_CHARGER :: string where
  "Drawable_CHARGER \<equiv> ''charger''"

abbreviation Drawable_CLEANED_AREA :: string where
  "Drawable_CLEANED_AREA \<equiv> ''cleaned_area''"

abbreviation Drawable_GOTO_PATH :: string where
  "Drawable_GOTO_PATH \<equiv> ''goto_path''"

abbreviation Drawable_IGNORED_OBSTACLES :: string where
  "Drawable_IGNORED_OBSTACLES \<equiv> ''ignored_obstacles''"

abbreviation Drawable_IGNORED_OBSTACLES_WITH_PHOTO :: string where
  "Drawable_IGNORED_OBSTACLES_WITH_PHOTO \<equiv> ''ignored_obstacles_with_photo''"

abbreviation Drawable_MOP_PATH :: string where
  "Drawable_MOP_PATH \<equiv> ''mop_path''"

abbreviation Drawable_NO_CARPET_AREAS :: string where
  "Drawable_NO_CARPET_AREAS \<equiv> ''no_carpet_zones''"

abbreviation Drawable_NO_GO_AREAS :: string where
  "Drawable_NO_GO_AREAS \<equiv> ''no_go_zones''"

abbreviation Drawable_NO_MOPPING_AREAS :: string where
  "Drawable_NO_MOPPING_AREAS \<equiv> ''no_mopping_zones''"

abbreviation Drawable_OBSTACLES :: string where
  "Drawable_OBSTACLES \<equiv> ''obstacles''"

abbreviation Drawable_OBSTACLES_WITH_PHOTO :: string where
  "Drawable_OBSTACLES_WITH_PHOTO \<equiv> ''obstacles_with_photo''"

abbreviation Drawable_PATH :: string where
  "Drawable_PATH \<equiv> ''path''"

abbreviation Drawable_PREDICTED_PATH :: string where
  "Drawable_PREDICTED_PATH \<equiv> ''predicted_path''"

abbreviation Drawable_ROOM_NAMES :: string where
  "Drawable_ROOM_NAMES \<equiv> ''room_names''"

abbreviation Drawable_VACUUM_POSITION :: string where
  "Drawable_VACUUM_POSITION \<equiv> ''vacuum_position''"

abbreviation Drawable_VIRTUAL_WALLS :: string where
  "Drawable_VIRTUAL_WALLS \<equiv> ''virtual_walls''"

abbreviation Drawable_ZONES :: string where
  "Drawable_ZONES \<equiv> ''zones''"

record TrimConfig =
  trim_left :: real
  trim_right :: real
  trim_top :: real
  trim_bottom :: real

record ImageConfig =
  cfg_scale :: real
  cfg_rotate :: real
  cfg_trim :: TrimConfig

text \<open>The defaults of the two dataclasses: \<open>ImageConfig()\<close>.\<close>

definition default_TrimConfig :: TrimConfig where
  "default_TrimConfig = \<lparr>trim_left = 0, trim_right = 0, trim_top = 0, trim_bottom = 0\<rparr>"

definition default_ImageConfig :: ImageConfig where
  "default_ImageConfig = \<lparr>cfg_scale = 1, cfg_rotate = 0, cfg_trim = default_TrimConfig\<rparr>"

record Text =
  t_text :: string
  t_x :: real
  t_y :: real
  t_color :: Color
  t_font :: "string option"
  t_font_size :: "int option"


section \<open>The Pillow library\<close>

text \<open>
  Pillow is not part of the repository. A picture is the term of the Pillow calls that
  built it, so that every call the code issues can be read off the result. Three things
  the code asks of Pillow depend on fonts, files and Pillow's own arithmetic; they are
  the fields of the record \<open>Pillow\<close>, an argument of every function that needs them:
  \<open>ImageDraw.textbbox\<close>, \<open>ImageFont.truetype\<close> (\<open>None\<close> where it raises \<open>OSError\<close> or
  \<open>ImportError\<close>, which the code catches) and the size of a picture rotated by an
  arbitrary angle with \<open>expand=True\<close>.
\<close>

datatype Font = TrueTypeFont string int

datatype draw_call =
    DrawLine "real list" Color int
  | DrawEllipse "real list" "Color option" "Color option"
  | DrawPieslice "(real \<times> real) \<times> (real \<times> real)" real real Color Color
  | DrawPolygon "real list" Color Color
  | DrawText "real \<times> real" string "Font option" Color

text \<open>
  The arguments are those of the source, in this order: \<open>line(xy, fill, width)\<close>,
  \<open>ellipse(xy, outline, fill)\<close>, \<open>pieslice(xy, start, end, outline, fill)\<close>,
  \<open>polygon(xy, fill, outline)\<close>, \<open>text(xy, text, font, fill)\<close>.
\<close>

datatype Transpose = ROTATE_90 | ROTATE_180 | ROTATE_270

datatype raster =
    Given nat "int \<times> int"
  | New string "int \<times> int" Color
  | Drawn raster draw_call
  | AlphaComposite raster raster
  | Resized raster "int \<times> int"
  | Transposed raster Transpose
  | Rotated raster real Color

text \<open>
  \<open>Given k size\<close> is a picture handed in by the parser, \<open>New mode size color\<close> is
  \<open>Image.new\<close>, \<open>Drawn\<close> is one call on an \<open>ImageDraw\<close> of the picture, \<open>Resized\<close> is
  \<open>resize(size, BOX)\<close>, \<open>Transposed\<close> is \<open>transpose\<close> and \<open>Rotated r angle fill\<close> is
  \<open>rotate(angle, BILINEAR, True, fillcolor=fill)\<close>.
\<close>

record Pillow =
  textbbox :: "string \<Rightarrow> Font option \<Rightarrow> real \<times> real \<times> real \<times> real"
  truetype :: "string \<Rightarrow> int \<Rightarrow> Font option"
  rotated_size :: "real \<Rightarrow> int \<times> int \<Rightarrow> int \<times> int"

fun raster_size :: "Pillow \<Rightarrow> raster \<Rightarrow> int \<times> int" where
  "raster_size pil (Given k sz) = sz"
| "raster_size pil (New mode sz c) = sz"
| "raster_size pil (Drawn r c) = raster_size pil r"
| "raster_size pil (AlphaComposite r l) = raster_size pil r"
| "raster_size pil (Resized r sz) = sz"
| "raster_size pil (Transposed r t) =
     (case t of ROTATE_180 \<Rightarrow> raster_size pil r
      | _ \<Rightarrow> (snd (raster_size pil r), fst (raster_size pil r)))"
| "raster_size pil (Rotated r angle c) = rotated_size pil angle (raster_size pil r)"

text \<open>
  A layer that was created fully transparent and has received no draw call has alpha 0
  in every pixel, also after a box-filter resize. \<open>Image.alpha_composite\<close> keeps the
  destination pixel where the source alpha is 0, so compositing such a layer gives back
  the pixels of the destination.
\<close>

fun transparent :: "raster \<Rightarrow> bool" where
  "transparent (New mode sz c) = (case c of RGBA r g b al \<Rightarrow> al = 0 | RGB r g b \<Rightarrow> False)"
| "transparent (Resized r sz) = transparent r"
| "transparent (Given k sz) = False"
| "transparent (Drawn r c) = False"
| "transparent (AlphaComposite r l) = False"
| "transparent (Transposed r t) = False"
| "transparent (Rotated r angle c) = False"

definition alpha_composite :: "raster \<Rightarrow> raster \<Rightarrow> raster" where
  "alpha_composite im layer = (if transparent layer then im else AlphaComposite im layer)"

section \<open>map\_data.py: the map model\<close>

record ObstacleDetails =
  od_type :: "int option"
  od_description :: "string option"
  od_confidence_level :: "real option"
  od_photo_name :: "string option"

record Obstacle = Point +
  o_details :: ObstacleDetails

record ImageData =
  i_size :: int
  i_dimensions :: ImageDimensions
  i_is_empty :: bool
  i_data :: raster
  i_additional_layers :: "string \<rightharpoonup> raster"

text \<open>\<open>ImageData.__init__\<close>\<close>

definition ImageData_init ::
  "int \<Rightarrow> int \<Rightarrow> int \<Rightarrow> int \<Rightarrow> int \<Rightarrow> ImageConfig \<Rightarrow> raster \<Rightarrow> (Point \<Rightarrow> Point)
     \<Rightarrow> (string \<rightharpoonup> raster option) option \<Rightarrow> ImageData" where
  "ImageData_init size_arg top_arg left_arg height width image_config data img_transformation
       additional_layers =
     (let trim_l = py_int (trim_left (cfg_trim image_config) * of_int width / 100);
          trim_r = py_int (trim_right (cfg_trim image_config) * of_int width / 100);
          trim_t = py_int (trim_top (cfg_trim image_config) * of_int height / 100);
          trim_b = py_int (trim_bottom (cfg_trim image_config) * of_int height / 100);
          scale = cfg_scale image_config;
          rotation = cfg_rotate image_config
      in \<lparr>i_size = size_arg,
          i_dimensions =
            \<lparr>d_top = top_arg + trim_b,
             d_left = left_arg + trim_l,
             d_height = height - trim_t - trim_b,
             d_width = width - trim_l - trim_r,
             d_scale = scale,
             d_rotation = rotation,
             d_img_transformation = img_transformation\<rparr>,
          i_is_empty = (height = 0 \<or> width = 0),
          i_data = data,
          i_additional_layers =
            (case additional_layers of
               None \<Rightarrow> Map.empty
             | Some layers \<Rightarrow>
                 (\<lambda>name. case layers name of Some (Some layer) \<Rightarrow> Some layer | _ \<Rightarrow> None))\<rparr>)"

text \<open>\<open>ImageData.create_empty\<close>\<close>

definition create_empty :: "raster \<Rightarrow> ImageData" where
  "create_empty data = ImageData_init 0 0 0 0 0 default_ImageConfig data (\<lambda>p. p) None"

record Path =
  path_point_length :: "int option"
  path_point_size :: "int option"
  path_angle :: "int option"
  path_path :: "Point list list"

record Area =
  a_x0 :: real
  a_y0 :: real
  a_x1 :: real
  a_y1 :: real
  a_x2 :: real
  a_y2 :: real
  a_x3 :: real
  a_y3 :: real

definition area_as_list :: "Area \<Rightarrow> real list" where
  "area_as_list ar = [a_x0 ar, a_y0 ar, a_x1 ar, a_y1 ar, a_x2 ar, a_y2 ar, a_x3 ar, a_y3 ar]"

definition area_to_img :: "ImageDimensions \<Rightarrow> Area \<Rightarrow> Area" where
  "area_to_img d ar =
     (let p0 = to_img d (mk_Point (a_x0 ar) (a_y0 ar));
          p1 = to_img d (mk_Point (a_x1 ar) (a_y1 ar));
          p2 = to_img d (mk_Point (a_x2 ar) (a_y2 ar));
          p3 = to_img d (mk_Point (a_x3 ar) (a_y3 ar))
      in \<lparr>a_x0 = p_x p0, a_y0 = p_y p0, a_x1 = p_x p1, a_y1 = p_y p1,
          a_x2 = p_x p2, a_y2 = p_y p2, a_x3 = p_x p3, a_y3 = p_y p3\<rparr>)"

record Zone =
  z_x0 :: real
  z_y0 :: real
  z_x1 :: real
  z_y1 :: real

definition as_area :: "'a Zone_scheme \<Rightarrow> Area" where
  "as_area z =
     \<lparr>a_x0 = z_x0 z, a_y0 = z_y0 z, a_x1 = z_x0 z, a_y1 = z_y1 z,
      a_x2 = z_x1 z, a_y2 = z_y1 z, a_x3 = z_x1 z, a_y3 = z_y0 z\<rparr>"

record Room = Zone +
  r_number :: int
  r_name :: "string option"
  r_pos_x :: "real option"
  r_pos_y :: "real option"

text \<open>\<open>Room.point\<close>\<close>

definition room_point :: "Room \<Rightarrow> Point option" where
  "room_point room =
     (case (r_pos_x room, r_pos_y room, r_name room) of
        (Some px, Some py, Some n) \<Rightarrow> Some (mk_Point px py)
      | _ \<Rightarrow> None)"

record Wall =
  w_x0 :: real
  w_y0 :: real
  w_x1 :: real
  w_y1 :: real

definition wall_to_img :: "ImageDimensions \<Rightarrow> Wall \<Rightarrow> Wall" where
  "wall_to_img d wl =
     (let p0 = to_img d (mk_Point (w_x0 wl) (w_y0 wl));
          p1 = to_img d (mk_Point (w_x1 wl) (w_y1 wl))
      in \<lparr>w_x0 = p_x p0, w_y0 = p_y p0, w_x1 = p_x p1, w_y1 = p_y p1\<rparr>)"

definition wall_as_list :: "Wall \<Rightarrow> real list" where
  "wall_as_list wl = [w_x0 wl, w_y0 wl, w_x1 wl, w_y1 wl]"

text \<open>
  \<open>MapData\<close>. The dictionary \<open>rooms\<close> is a list of pairs in insertion order, the order
  in which \<open>values()\<close> yields the rooms.
\<close>

record MapData =
  m_calibration_center :: real
  m_calibration_diff :: real
  m_blocks :: "unit option"
  m_charger :: "Point option"
  m_goto :: "Point list option"
  m_goto_path :: "Path option"
  m_image :: "ImageData option"
  m_no_go_areas :: "Area list option"
  m_no_mopping_areas :: "Area list option"
  m_no_carpet_areas :: "Area list option"
  m_carpet_map :: "int set option"
  m_obstacles :: "Obstacle list option"
  m_ignored_obstacles :: "Obstacle list option"
  m_obstacles_with_photo :: "Obstacle list option"
  m_ignored_obstacles_with_photo :: "Obstacle list option"
  m_path :: "Path option"
  m_predicted_path :: "Path option"
  m_mop_path :: "Path option"
  m_rooms :: "(int \<times> Room) list option"
  m_vacuum_position :: "Point option"
  m_vacuum_room :: "int option"
  m_vacuum_room_name :: "string option"
  m_walls :: "Wall list option"
  m_zones :: "Zone list option"
  m_cleaned_rooms :: "int set option"
  m_map_name :: "string option"

text \<open>\<open>MapData.__init__\<close>\<close>

definition MapData_init :: "real \<Rightarrow> real \<Rightarrow> MapData" where
  "MapData_init calibration_center calibration_diff =
     \<lparr>m_calibration_center = calibration_center,
      m_calibration_diff = calibration_diff,
      m_blocks = None, m_charger = None, m_goto = None, m_goto_path = None,
      m_image = None, m_no_go_areas = None, m_no_mopping_areas = None,
      m_no_carpet_areas = None, m_carpet_map = Some {}, m_obstacles = None,
      m_ignored_obstacles = None, m_obstacles_with_photo = None,
      m_ignored_obstacles_with_photo = None, m_path = None, m_predicted_path = None,
      m_mop_path = None, m_rooms = None, m_vacuum_position = None, m_vacuum_room = None,
      m_vacuum_room_name = None, m_walls = None, m_zones = None, m_cleaned_rooms = None,
      m_map_name = None\<rparr>"

text \<open>\<open>MapData.calibration\<close>: \<open>None\<close>, or the list of the calibration points.\<close>

record CalibrationPoint =
  cal_vacuum :: "real \<times> real"
  cal_map :: "real \<times> real"

definition calibration_point :: "ImageDimensions \<Rightarrow> Point \<Rightarrow> CalibrationPoint" where
  "calibration_point d point =
     (let img_point = rotated d (to_img d point)
      in \<lparr>cal_vacuum = (p_x point, p_y point), cal_map = (p_x img_point, p_y img_point)\<rparr>)"

definition calibration :: "MapData \<Rightarrow> CalibrationPoint list option" where
  "calibration m =
     (case m_image m of
        None \<Rightarrow> None
      | Some img \<Rightarrow>
          if i_is_empty img then None
          else Some (map (calibration_point (i_dimensions img))
                 [mk_Point (m_calibration_center m) (m_calibration_center m),
                  mk_Point (m_calibration_center m + m_calibration_diff m * 10)
                           (m_calibration_center m),
                  mk_Point (m_calibration_center m)
                           (m_calibration_center m + m_calibration_diff m * 10)]))"

section \<open>image\_generator.py\<close>

record ImageGenerator =
  g_palette :: ColorsPalette
  g_sizes :: Sizes
  g_drawables :: "string list"
  g_image_config :: ImageConfig
  g_texts :: "Text list"

text \<open>\<open>_get_color\<close>, \<open>_get_size\<close>, \<open>_use_transparency\<close>\<close>

definition gen_get_color :: "ImageGenerator \<Rightarrow> string \<Rightarrow> Color" where
  "gen_get_color g name = get_color (g_palette g) name"

definition gen_get_size :: "ImageGenerator \<Rightarrow> string \<Rightarrow> real" where
  "gen_get_size g name = get_size (g_sizes g) name"

definition use_transparency :: "Color list \<Rightarrow> bool" where
  "use_transparency colors = list_ex (\<lambda>color. color_len color > 3) colors"

text \<open>
  A \<open>draw_func\<close> closure is the list of the calls it makes on the \<open>ImageDraw\<close> it is
  given, in order; \<open>draw_calls\<close> applies them to a picture.
\<close>

definition draw_calls :: "raster \<Rightarrow> draw_call list \<Rightarrow> raster" where
  "draw_calls r calls = foldl Drawn r calls"

text \<open>\<open>_draw_layer_with_alpha\<close>\<close>

definition draw_layer_with_alpha :: "ImageData \<Rightarrow> raster \<Rightarrow> ImageData" where
  "draw_layer_with_alpha img layer = img\<lparr>i_data := alpha_composite (i_data img) layer\<rparr>"

text \<open>\<open>_draw_on_new_layer\<close>\<close>

definition draw_on_new_layer ::
  "Pillow \<Rightarrow> ImageData \<Rightarrow> draw_call list \<Rightarrow> real \<Rightarrow> bool \<Rightarrow> ImageData" where
  "draw_on_new_layer pil img draw_function scale use_transp =
     (if scale = 1 \<and> \<not> use_transp
      then img\<lparr>i_data := draw_calls (i_data img) draw_function\<rparr>
      else
        (let sz = (py_int (of_int (fst (raster_size pil (i_data img))) * scale),
                   py_int (of_int (snd (raster_size pil (i_data img))) * scale));
             layer = New ''RGBA'' sz (RGBA 255 255 255 0);
             layer = draw_calls layer draw_function;
             layer = (if scale \<noteq> 1 then Resized layer (raster_size pil (i_data img)) else layer)
         in draw_layer_with_alpha img layer))"

text \<open>
  \<open>_draw_vacuum\<close>. Its \<open>draw_func\<close> assigns to \<open>vacuum_pos.a\<close>, and \<open>vacuum_pos\<close> is the
  object held in \<open>map_data.vacuum_position\<close>: \<open>vacuum_draw_func\<close> returns the position
  after the assignment together with the calls, and the caller stores it back.
\<close>

definition vacuum_draw_func ::
  "ImageDimensions \<Rightarrow> Point \<Rightarrow> real \<Rightarrow> Color \<Rightarrow> Color \<Rightarrow> Point \<times> draw_call list" where
  "vacuum_draw_func d vacuum_pos r outline fill =
     (let vacuum_pos = (if p_a vacuum_pos = None then vacuum_pos\<lparr>p_a := Some 0\<rparr> else vacuum_pos);
          heading = the (p_a vacuum_pos);
          point = to_img d vacuum_pos;
          r_scaled = r / 16;
          main_outline =
            [DrawEllipse [p_x point - r, p_y point - r, p_x point + r, p_y point + r]
               (Some outline) (Some fill)];
          secondary_outline =
            (if r \<ge> 8
             then [DrawEllipse [p_x point - r_scaled * 14, p_y point - r_scaled * 14,
                                p_x point + r_scaled * 14, p_y point + r_scaled * 14]
                     (Some outline) None]
             else []);
          a1 = (heading + 104) / 180 * pi;
          a2 = (heading - 104) / 180 * pi;
          r2 = r_scaled * 13;
          x1 = p_x point - r2 * cos a1;
          y1 = p_y point + r2 * sin a1;
          x2 = p_x point - r2 * cos a2;
          y2 = p_y point + r2 * sin a2;
          bin_cover = [DrawLine [x1, y1, x2, y2] outline 1];
          angle = heading / 180 * pi;
          r2 = r_scaled * 3;
          lx = p_x point + r2 * cos angle;
          ly = p_y point - r2 * sin angle;
          r2 = r_scaled * 4;
          lidar = [DrawEllipse [lx - r2, ly - r2, lx + r2, ly + r2] (Some outline) (Some fill)];
          half_color = RGB ((color_red outline + color_red fill) div 2)
                           ((color_green outline + color_green fill) div 2)
                           ((color_blue outline + color_blue fill) div 2);
          r2 = r_scaled * 10;
          btn_x = p_x point + r2 * cos angle;
          btn_y = p_y point - r2 * sin angle;
          r2 = r_scaled * 2;
          button = [DrawEllipse [btn_x - r2, btn_y - r2, btn_x + r2, btn_y + r2]
                      (Some half_color) (Some half_color)]
      in (vacuum_pos, main_outline @ secondary_outline @ bin_cover @ lidar @ button))"

definition draw_vacuum ::
  "Pillow \<Rightarrow> ImageData \<Rightarrow> Point \<Rightarrow> real \<Rightarrow> Color \<Rightarrow> Color \<Rightarrow> ImageData \<times> Point" where
  "draw_vacuum pil img vacuum_pos r outline fill =
     (let (vacuum_pos', calls) = vacuum_draw_func (i_dimensions img) vacuum_pos r outline fill
      in (draw_on_new_layer pil img calls 1 (use_transparency [outline, fill]), vacuum_pos'))"

text \<open>\<open>_draw_circle\<close>\<close>

definition draw_circle :: "Pillow \<Rightarrow> ImageData \<Rightarrow> Point \<Rightarrow> real \<Rightarrow> Color \<Rightarrow> Color \<Rightarrow> ImageData" where
  "draw_circle pil img center r outline fill =
     (let point = to_img (i_dimensions img) center;
          coords = [p_x point - r, p_y point - r, p_x point + r, p_y point + r]
      in draw_on_new_layer pil img [DrawEllipse coords (Some outline) (Some fill)] 1
           (use_transparency [outline, fill]))"

text \<open>\<open>_draw_pieslice\<close>\<close>

definition draw_pieslice :: "Pillow \<Rightarrow> ImageData \<Rightarrow> Point \<Rightarrow> real \<Rightarrow> Color \<Rightarrow> Color \<Rightarrow> ImageData" where
  "draw_pieslice pil img position r outline fill =
     (let point = to_img (i_dimensions img) position;
          angle = (case p_a position of Some a \<Rightarrow> - a | None \<Rightarrow> 0);
          coords = ((p_x point - r, p_y point - r), (p_x point + r, p_y point + r))
      in draw_on_new_layer pil img [DrawPieslice coords (angle + 90) (angle - 90) outline fill] 1
           (use_transparency [outline, fill]))"

text \<open>\<open>_draw_areas\<close>\<close>

definition draw_areas :: "Pillow \<Rightarrow> ImageData \<Rightarrow> Area list \<Rightarrow> Color \<Rightarrow> Color \<Rightarrow> ImageData" where
  "draw_areas pil img areas fill outline =
     (if length areas = 0 then img
      else
        (let use_transp = use_transparency [outline, fill]
         in foldl (\<lambda>im area.
                     draw_on_new_layer pil im
                       [DrawPolygon (area_as_list (area_to_img (i_dimensions im) area)) fill outline]
                       1 use_transp)
              img areas))"

text \<open>
  \<open>_draw_path\<close>. \<open>segment_calls\<close> is the inner loop over \<open>current_path[1:]\<close>: \<open>s\<close> is the
  start of the next segment and \<open>coords_set\<close> tells whether \<open>coords\<close> has been assigned
  (a pair of pairs, which is true in a condition). \<open>polyline_calls\<close> is the body of the
  outer loop and \<open>path_draw_func\<close> the closure.
\<close>

definition end_cap :: "Point \<Rightarrow> real \<Rightarrow> Color \<Rightarrow> draw_call" where
  "end_cap c r color =
     DrawPieslice ((p_x c - r, p_y c - r), (p_x c + r, p_y c + r)) 0 360 color color"

fun segment_calls ::
  "ImageDimensions \<Rightarrow> real \<Rightarrow> real \<Rightarrow> Color \<Rightarrow> Point \<Rightarrow> bool \<Rightarrow> Point list \<Rightarrow> draw_call list" where
  "segment_calls d scale path_width color s coords_set [] = []"
| "segment_calls d scale path_width color s coords_set (point # rest) =
     (let e = point_mul (to_img d point) scale
      in DrawLine [p_x s, p_y s, p_x e, p_y e] color (py_int (scale * path_width))
         # (if path_width > 4
            then (if \<not> coords_set then [end_cap s (scale * path_width / 2) color] else [])
                 @ [end_cap e (scale * path_width / 2) color]
            else [])
         @ segment_calls d scale path_width color e (coords_set \<or> path_width > 4) rest)"

definition polyline_calls ::
  "ImageDimensions \<Rightarrow> real \<Rightarrow> real \<Rightarrow> Color \<Rightarrow> Point list \<Rightarrow> draw_call list" where
  "polyline_calls d scale path_width color current_path =
     (case current_path of
        p0 # p1 # ps \<Rightarrow>
          segment_calls d scale path_width color (point_mul (to_img d p0) scale) False
            (p1 # ps)
      | _ \<Rightarrow> [])"

definition path_draw_func ::
  "ImageDimensions \<Rightarrow> real \<Rightarrow> real \<Rightarrow> Color \<Rightarrow> Path \<Rightarrow> draw_call list" where
  "path_draw_func d scale path_width color path =
     concat (map (polyline_calls d scale path_width color) (path_path path))"

definition draw_path ::
  "Pillow \<Rightarrow> ImageGenerator \<Rightarrow> ImageData \<Rightarrow> Path \<Rightarrow> real \<Rightarrow> Color \<Rightarrow> ImageData" where
  "draw_path pil g img path path_width color =
     (if length (path_path path) < 1 then img
      else
        (let scale = cfg_scale (g_image_config g)
         in draw_on_new_layer pil img
              (path_draw_func (i_dimensions img) scale path_width color path)
              scale (use_transparency [color])))"

text \<open>\<open>_draw_text\<close>: a font that cannot be loaded is replaced by the default font.\<close>

definition draw_text ::
  "Pillow \<Rightarrow> ImageData \<Rightarrow> string \<Rightarrow> real \<Rightarrow> real \<Rightarrow> Color \<Rightarrow> string option \<Rightarrow> int option
     \<Rightarrow> ImageData" where
  "draw_text pil img txt vx vy color font_file font_size =
     (let font = (case (font_file, font_size) of
                    (Some file, Some fs) \<Rightarrow> if fs > 0 then truetype pil file fs else None
                  | _ \<Rightarrow> None);
          (l, t, r, b) = textbbox pil txt font;
          w = r - l;
          h = b - t
      in draw_on_new_layer pil img [DrawText (vx - w / 2, vy - h / 2) txt font color] 1
           (use_transparency [color]))"

text \<open>\<open>_draw_texts\<close>\<close>

definition draw_texts :: "Pillow \<Rightarrow> ImageData \<Rightarrow> Text list \<Rightarrow> ImageData" where
  "draw_texts pil img texts =
     foldl (\<lambda>im text_config.
              draw_text pil im (t_text text_config)
                (t_x text_config * of_int (fst (raster_size pil (i_data im))) / 100)
                (t_y text_config * of_int (snd (raster_size pil (i_data im))) / 100)
                (t_color text_config) (t_font text_config) (t_font_size text_config))
       img texts"

text \<open>\<open>_draw_all_obstacles\<close>\<close>

definition draw_all_obstacles ::
  "Pillow \<Rightarrow> ImageData \<Rightarrow> Obstacle list \<Rightarrow> real \<Rightarrow> Color \<Rightarrow> ImageData" where
  "draw_all_obstacles pil img obstacles radius color =
     foldl (\<lambda>im obstacle. draw_circle pil im (Point.truncate obstacle) radius color color)
       img obstacles"

text \<open>\<open>_rotate\<close>\<close>

definition rotate_image :: "ImageGenerator \<Rightarrow> ImageData \<Rightarrow> ImageData" where
  "rotate_image g img =
     (if d_rotation (i_dimensions img) = 90
      then img\<lparr>i_data := Transposed (i_data img) ROTATE_90\<rparr>
      else if d_rotation (i_dimensions img) = 180
      then img\<lparr>i_data := Transposed (i_data img) ROTATE_180\<rparr>
      else if d_rotation (i_dimensions img) = 270
      then img\<lparr>i_data := Transposed (i_data img) ROTATE_270\<rparr>
      else img\<lparr>i_data := Rotated (i_data img) (d_rotation (i_dimensions img))
                              (gen_get_color g SupportedColor_MAP_OUTSIDE)\<rparr>)"

text \<open>\<open>create_empty_map_image\<close>\<close>

definition create_empty_map_image :: "Pillow \<Rightarrow> ImageGenerator \<Rightarrow> string \<Rightarrow> raster" where
  "create_empty_map_image pil g txt =
     (let color = gen_get_color g SupportedColor_MAP_OUTSIDE;
          img = New ''RGBA'' (300, 200) color;
          text_color = (if color_red color + color_green color + color_blue color > 382
                        then RGB 0 0 0 else RGB 255 255 255);
          (l, t, r, b) = textbbox pil txt None;
          w = r - l;
          h = b - t
      in Drawn img
           (DrawText ((of_int (fst (raster_size pil img)) - w) / 2,
                      (of_int (snd (raster_size pil img)) - h) / 2) txt None text_color))"

text \<open>
  The element renderers. Each works on \<open>map_data\<close> and returns it as it is after the
  call; the picture is the only thing they assign to, except \<open>_draw_vacuum_position\<close>.
\<close>

definition draw_vacuum_path :: "Pillow \<Rightarrow> ImageGenerator \<Rightarrow> MapData \<Rightarrow> MapData" where
  "draw_vacuum_path pil g m =
     (case (m_path m, m_image m) of
        (Some path, Some img) \<Rightarrow>
          m\<lparr>m_image := Some (draw_path pil g img path (gen_get_size g Size_PATH_WIDTH)
                               (gen_get_color g SupportedColor_PATH))\<rparr>
      | _ \<Rightarrow> m)"

definition draw_goto_path :: "Pillow \<Rightarrow> ImageGenerator \<Rightarrow> MapData \<Rightarrow> MapData" where
  "draw_goto_path pil g m =
     (case (m_goto_path m, m_image m) of
        (Some path, Some img) \<Rightarrow>
          m\<lparr>m_image := Some (draw_path pil g img path (gen_get_size g Size_PATH_WIDTH)
                               (gen_get_color g SupportedColor_GOTO_PATH))\<rparr>
      | _ \<Rightarrow> m)"

definition draw_predicted_path :: "Pillow \<Rightarrow> ImageGenerator \<Rightarrow> MapData \<Rightarrow> MapData" where
  "draw_predicted_path pil g m =
     (case (m_predicted_path m, m_image m) of
        (Some path, Some img) \<Rightarrow>
          m\<lparr>m_image := Some (draw_path pil g img path (gen_get_size g Size_PATH_WIDTH)
                               (gen_get_color g SupportedColor_PREDICTED_PATH))\<rparr>
      | _ \<Rightarrow> m)"

definition draw_mop_path :: "Pillow \<Rightarrow> ImageGenerator \<Rightarrow> MapData \<Rightarrow> MapData" where
  "draw_mop_path pil g m =
     (case (m_mop_path m, m_image m) of
        (Some path, Some img) \<Rightarrow>
          m\<lparr>m_image := Some (draw_path pil g img path (gen_get_size g Size_MOP_PATH_WIDTH)
                               (gen_get_color g SupportedColor_MOP_PATH))\<rparr>
      | _ \<Rightarrow> m)"

definition draw_no_carpet_areas :: "Pillow \<Rightarrow> ImageGenerator \<Rightarrow> MapData \<Rightarrow> MapData" where
  "draw_no_carpet_areas pil g m =
     (case (m_no_carpet_areas m, m_image m) of
        (Some areas, Some img) \<Rightarrow>
          m\<lparr>m_image := Some (draw_areas pil img areas (gen_get_color g SupportedColor_NO_CARPET_ZONES)
                               (gen_get_color g SupportedColor_NO_CARPET_ZONES_OUTLINE))\<rparr>
      | _ \<Rightarrow> m)"

definition draw_no_go_areas :: "Pillow \<Rightarrow> ImageGenerator \<Rightarrow> MapData \<Rightarrow> MapData" where
  "draw_no_go_areas pil g m =
     (case (m_no_go_areas m, m_image m) of
        (Some areas, Some img) \<Rightarrow>
          m\<lparr>m_image := Some (draw_areas pil img areas (gen_get_color g SupportedColor_NO_GO_ZONES)
                               (gen_get_color g SupportedColor_NO_GO_ZONES_OUTLINE))\<rparr>
      | _ \<Rightarrow> m)"

definition draw_no_mopping_areas :: "Pillow \<Rightarrow> ImageGenerator \<Rightarrow> MapData \<Rightarrow> MapData" where
  "draw_no_mopping_areas pil g m =
     (case (m_no_mopping_areas m, m_image m) of
        (Some areas, Some img) \<Rightarrow>
          m\<lparr>m_image := Some (draw_areas pil img areas (gen_get_color g SupportedColor_NO_MOPPING_ZONES)
                               (gen_get_color g SupportedColor_NO_MOPPING_ZONES_OUTLINE))\<rparr>
      | _ \<Rightarrow> m)"

definition draw_walls :: "Pillow \<Rightarrow> ImageGenerator \<Rightarrow> MapData \<Rightarrow> MapData" where
  "draw_walls pil g m =
     (case (m_walls m, m_image m) of
        (Some walls, Some img) \<Rightarrow>
          (let color = gen_get_color g SupportedColor_VIRTUAL_WALLS;
               calls = map (\<lambda>wall. DrawLine (wall_as_list (wall_to_img (i_dimensions img) wall))
                                     color 2) walls
           in m\<lparr>m_image := Some (draw_on_new_layer pil img calls 1 (use_transparency [color]))\<rparr>)
      | _ \<Rightarrow> m)"

definition draw_zones :: "Pillow \<Rightarrow> ImageGenerator \<Rightarrow> MapData \<Rightarrow> MapData" where
  "draw_zones pil g m =
     (case (m_zones m, m_image m) of
        (Some zones, Some img) \<Rightarrow>
          m\<lparr>m_image := Some (draw_areas pil img (map as_area zones)
                               (gen_get_color g SupportedColor_ZONES)
                               (gen_get_color g SupportedColor_ZONES_OUTLINE))\<rparr>
      | _ \<Rightarrow> m)"

definition draw_charger :: "Pillow \<Rightarrow> ImageGenerator \<Rightarrow> MapData \<Rightarrow> MapData" where
  "draw_charger pil g m =
     (case (m_charger m, m_image m) of
        (Some charger, Some img) \<Rightarrow>
          (let fill = gen_get_color g SupportedColor_CHARGER;
               outline = gen_get_color g SupportedColor_CHARGER_OUTLINE;
               radius = gen_get_size g Size_CHARGER_RADIUS
           in m\<lparr>m_image := Some (draw_pieslice pil img charger radius outline fill)\<rparr>)
      | _ \<Rightarrow> m)"

definition draw_obstacles :: "Pillow \<Rightarrow> ImageGenerator \<Rightarrow> MapData \<Rightarrow> MapData" where
  "draw_obstacles pil g m =
     (case (m_obstacles m, m_image m) of
        (Some obstacles, Some img) \<Rightarrow>
          m\<lparr>m_image := Some (draw_all_obstacles pil img obstacles (gen_get_size g Size_OBSTACLE_RADIUS)
                               (gen_get_color g SupportedColor_OBSTACLE))\<rparr>
      | _ \<Rightarrow> m)"

definition draw_ignored_obstacles :: "Pillow \<Rightarrow> ImageGenerator \<Rightarrow> MapData \<Rightarrow> MapData" where
  "draw_ignored_obstacles pil g m =
     (case (m_ignored_obstacles m, m_image m) of
        (Some obstacles, Some img) \<Rightarrow>
          m\<lparr>m_image := Some (draw_all_obstacles pil img obstacles (gen_get_size g Size_IGNORED_OBSTACLE_RADIUS)
                               (gen_get_color g SupportedColor_IGNORED_OBSTACLE))\<rparr>
      | _ \<Rightarrow> m)"

definition draw_obstacles_with_photo :: "Pillow \<Rightarrow> ImageGenerator \<Rightarrow> MapData \<Rightarrow> MapData" where
  "draw_obstacles_with_photo pil g m =
     (case (m_obstacles_with_photo m, m_image m) of
        (Some obstacles, Some img) \<Rightarrow>
          m\<lparr>m_image := Some (draw_all_obstacles pil img obstacles (gen_get_size g Size_OBSTACLE_WITH_PHOTO_RADIUS)
                               (gen_get_color g SupportedColor_OBSTACLE_WITH_PHOTO))\<rparr>
      | _ \<Rightarrow> m)"

definition draw_ignored_obstacles_with_photo :: "Pillow \<Rightarrow> ImageGenerator \<Rightarrow> MapData \<Rightarrow> MapData" where
  "draw_ignored_obstacles_with_photo pil g m =
     (case (m_ignored_obstacles_with_photo m, m_image m) of
        (Some obstacles, Some img) \<Rightarrow>
          m\<lparr>m_image := Some (draw_all_obstacles pil img obstacles (gen_get_size g Size_IGNORED_OBSTACLE_WITH_PHOTO_RADIUS)
                               (gen_get_color g SupportedColor_IGNORED_OBSTACLE_WITH_PHOTO))\<rparr>
      | _ \<Rightarrow> m)"

definition draw_vacuum_position :: "Pillow \<Rightarrow> ImageGenerator \<Rightarrow> MapData \<Rightarrow> MapData" where
  "draw_vacuum_position pil g m =
     (case (m_vacuum_position m, m_image m) of
        (Some vacuum_position, Some img) \<Rightarrow>
          (let color = gen_get_color g SupportedColor_ROBO;
               outline = gen_get_color g SupportedColor_ROBO_OUTLINE;
               radius = gen_get_size g Size_VACUUM_RADIUS;
               (img', vacuum_position') = draw_vacuum pil img vacuum_position radius outline color
           in m\<lparr>m_image := Some img', m_vacuum_position := Some vacuum_position'\<rparr>)
      | _ \<Rightarrow> m)"

definition draw_room_names :: "Pillow \<Rightarrow> ImageGenerator \<Rightarrow> MapData \<Rightarrow> MapData" where
  "draw_room_names pil g m =
     (case (m_rooms m, m_image m) of
        (Some rooms, Some img) \<Rightarrow>
          (let color = gen_get_color g SupportedColor_ROOM_NAMES
           in m\<lparr>m_image := Some
                (foldl (\<lambda>im room.
                          case (room_point room, r_name room) of
                            (Some p, Some name) \<Rightarrow>
                              (let point = to_img (i_dimensions im) p
                               in draw_text pil im name (p_x point) (p_y point) color None None)
                          | _ \<Rightarrow> im)
                   img (map snd rooms))\<rparr>)
      | _ \<Rightarrow> m)"

text \<open>\<open>_draw_layer\<close>\<close>

definition draw_layer :: "MapData \<Rightarrow> string \<Rightarrow> MapData" where
  "draw_layer m layer_name =
     (case m_image m of
        Some img \<Rightarrow>
          (case i_additional_layers img layer_name of
             Some layer \<Rightarrow> m\<lparr>m_image := Some (draw_layer_with_alpha img layer)\<rparr>
           | None \<Rightarrow> m)
      | None \<Rightarrow> m)"

text \<open>
  \<open>draw_map\<close>. \<open>draw_drawable\<close> is the \<open>match\<close> statement of the loop, its cases in the
  order of the source; a string that matches no case is passed over.
\<close>

definition draw_drawable :: "Pillow \<Rightarrow> ImageGenerator \<Rightarrow> MapData \<Rightarrow> string \<Rightarrow> MapData" where
  "draw_drawable pil g m drawable =
     (if drawable = Drawable_CHARGER then draw_charger pil g m
      else if drawable = Drawable_VACUUM_POSITION then draw_vacuum_position pil g m
      else if drawable = Drawable_OBSTACLES then draw_obstacles pil g m
      else if drawable = Drawable_IGNORED_OBSTACLES then draw_ignored_obstacles pil g m
      else if drawable = Drawable_OBSTACLES_WITH_PHOTO then draw_obstacles_with_photo pil g m
      else if drawable = Drawable_IGNORED_OBSTACLES_WITH_PHOTO
        then draw_ignored_obstacles_with_photo pil g m
      else if drawable = Drawable_MOP_PATH then draw_mop_path pil g m
      else if drawable = Drawable_PATH then draw_vacuum_path pil g m
      else if drawable = Drawable_GOTO_PATH then draw_goto_path pil g m
      else if drawable = Drawable_PREDICTED_PATH then draw_predicted_path pil g m
      else if drawable = Drawable_NO_CARPET_AREAS then draw_no_carpet_areas pil g m
      else if drawable = Drawable_NO_GO_AREAS then draw_no_go_areas pil g m
      else if drawable = Drawable_NO_MOPPING_AREAS then draw_no_mopping_areas pil g m
      else if drawable = Drawable_VIRTUAL_WALLS then draw_walls pil g m
      else if drawable = Drawable_ZONES then draw_zones pil g m
      else if drawable = Drawable_CLEANED_AREA then draw_layer m drawable
      else if drawable = Drawable_ROOM_NAMES then draw_room_names pil g m
      else m)"

definition draw_map :: "Pillow \<Rightarrow> ImageGenerator \<Rightarrow> MapData \<Rightarrow> MapData" where
  "draw_map pil g m =
     (case m_image m of
        None \<Rightarrow> m
      | Some img0 \<Rightarrow>
          (let m' = foldl (draw_drawable pil g) m (g_drawables g)
           in case m_image m' of
                None \<Rightarrow> m'
              | Some img \<Rightarrow>
                  m'\<lparr>m_image := Some (draw_texts pil (rotate_image g img) (g_texts g))\<rparr>))"

section \<open>map\_data\_parser.py\<close>

text \<open>\<open>MapDataParser.create_empty\<close>\<close>

definition parser_create_empty :: "Pillow \<Rightarrow> ImageGenerator \<Rightarrow> string \<Rightarrow> MapData" where
  "parser_create_empty pil g txt =
     (MapData_init 0 0)\<lparr>m_image := Some (create_empty (create_empty_map_image pil g txt))\<rparr>"

section \<open>Concrete inputs\<close>

text \<open>
  The inputs at which the properties below are evaluated: a 80 by 100 picture with no
  trimming, the same picture trimmed by half its width on either side, and a map holding
  the first with calibration centre 0 and step 1.
\<close>

definition example_dims :: ImageDimensions where
  "example_dims = \<lparr>d_top = 0, d_left = 0, d_height = 100, d_width = 80, d_scale = 1,
                    d_rotation = 0, d_img_transformation = (\<lambda>p. p)\<rparr>"


definition example_image :: ImageData where
  "example_image =
     ImageData_init 8000 0 0 100 80 default_ImageConfig (Given 0 (80, 100)) (\<lambda>p. p) None"

definition trimmed_image :: ImageData where
  "trimmed_image =
     ImageData_init 8000 0 0 100 80
       \<lparr>cfg_scale = 1, cfg_rotate = 0,
        cfg_trim = \<lparr>trim_left = 50, trim_right = 50, trim_top = 0, trim_bottom = 0\<rparr>\<rparr>
       (Given 0 (80, 100)) (\<lambda>p. p) None"

definition example_map :: MapData where
  "example_map = (MapData_init 0 1)\<lparr>m_image := Some example_image\<rparr>"






text \<open>
  A stand-in for Pillow (every text is 6 wide per character and 11 high, no font file
  can be loaded, a rotated picture keeps its size), a generator with default palette,
  sizes and image configuration, and one whose "outside map" colour is overridden by a
  light colour.
\<close>

definition plain_pillow :: Pillow where
  "plain_pillow =
     \<lparr>textbbox = (\<lambda>txt font. (0, 0, 6 * of_nat (length txt), 11)),
      truetype = (\<lambda>file fs. None),
      rotated_size = (\<lambda>angle sz. sz)\<rparr>"

definition default_generator :: "string list \<Rightarrow> ImageGenerator" where
  "default_generator drawables =
     \<lparr>g_palette = ColorsPalette_init None None,
      g_sizes = \<lparr>overriden_sizes = Map.empty\<rparr>,
      g_drawables = drawables,
      g_image_config = default_ImageConfig,
      g_texts = []\<rparr>"

definition light_generator :: ImageGenerator where
  "light_generator =
     (default_generator [])\<lparr>g_palette :=
        ColorsPalette_init (Some [SupportedColor_MAP_OUTSIDE \<mapsto> RGB 200 200 200]) None\<rparr>"

text \<open>
  The path renderer in the words of the specification, on the points of one polyline as
  they are drawn: a straight segment of the given width between consecutive points and,
  when caps are asked for, a full circle of the given radius at every point, the first
  two after the first segment and each later one after the segment that ends in it.
\<close>

definition path_line :: "Color \<Rightarrow> int \<Rightarrow> Point \<Rightarrow> Point \<Rightarrow> draw_call" where
  "path_line color wd s e = DrawLine [p_x s, p_y s, p_x e, p_y e] color wd"

definition later_segments :: "Color \<Rightarrow> int \<Rightarrow> bool \<Rightarrow> real \<Rightarrow> Point \<Rightarrow> Point list \<Rightarrow> draw_call list" where
  "later_segments color wd caps r s qs =
     concat (map (\<lambda>(a, b). path_line color wd a b # (if caps then [end_cap b r color] else []))
               (zip (s # qs) qs))"

definition polyline_as_specified ::
  "Color \<Rightarrow> int \<Rightarrow> bool \<Rightarrow> real \<Rightarrow> Point list \<Rightarrow> draw_call list" where
  "polyline_as_specified color wd caps r qs =
     (case qs of
        q0 # q1 # rest \<Rightarrow>
          path_line color wd q0 q1
          # (if caps then [end_cap q0 r color, end_cap q1 r color] else [])
          @ later_segments color wd caps r q1 rest
      | _ \<Rightarrow> [])"

definition example_path :: "Point list list \<Rightarrow> Path" where
  "example_path polylines =
     \<lparr>path_point_length = None, path_point_size = None, path_angle = None,
      path_path = polylines\<rparr>"

definition scaled_dims :: ImageDimensions where
  "scaled_dims = example_dims\<lparr>d_scale := 3 / 2\<rparr>"

text \<open>
  A map that holds the example picture and whose lists of elements are all present but
  empty.
\<close>

definition empty_lists_map :: MapData where
  "empty_lists_map =
     example_map
       \<lparr>m_goto_path := Some (example_path []),
        m_no_go_areas := Some [], m_no_mopping_areas := Some [], m_no_carpet_areas := Some [],
        m_obstacles := Some [], m_ignored_obstacles := Some [],
        m_obstacles_with_photo := Some [], m_ignored_obstacles_with_photo := Some [],
        m_path := Some (example_path []), m_predicted_path := Some (example_path []),
        m_mop_path := Some (example_path []), m_rooms := Some [], m_walls := Some [],
        m_zones := Some []\<rparr>"

text \<open>
  A map with a vacuum position that has no heading, and the position after the heading
  has been set to 0.
\<close>

definition heading_map :: MapData where
  "heading_map = example_map\<lparr>m_vacuum_position := Some (mk_Point 5 5)\<rparr>"

definition headed_position :: Point where
  "headed_position = \<lparr>p_x = 5, p_y = 5, p_a = Some 0\<rparr>"

section \<open>Properties\<close>

subsection \<open>Geometry\<close>

text \<open>
  C1. With scale 1, left 0, top 0 and the identity as the coordinate pre-transformation,
  \<open>to_img\<close> sends a point \<open>p\<close> to the point whose y-coordinate is the height minus
  \<open>p.y\<close> minus 1 and whose x-coordinate is \<open>p.x\<close>.
\<close>

theorem to_img_axis_flip:
  assumes "d_scale d = 1" and "d_left d = 0" and "d_top d = 0"
    and "d_img_transformation d = (\<lambda>q. q)"
  shows "p_y (to_img d p) = of_int (d_height d) - p_y p - 1 \<and> p_x (to_img d p) = p_x p"
  using assms by (simp add: to_img_def mk_Point_def)

theorem to_img_axis_flip_witness:
  "d_scale example_dims = 1 \<and> d_left example_dims = 0 \<and> d_top example_dims = 0
   \<and> d_img_transformation example_dims = (\<lambda>q. q)
   \<and> p_y (to_img example_dims (mk_Point 10 0)) = 99
   \<and> p_x (to_img example_dims (mk_Point 10 0)) = 10"
  using to_img_axis_flip [of example_dims "mk_Point 10 0"]
  by (simp add: example_dims_def mk_Point_def)


lemma rotate_steps_90: "rotate_steps 90 vx vy w h = (vy, of_int w - vx)"
  by simp

lemma rotate_steps_180: "rotate_steps 180 vx vy w h = (of_int w - vx, of_int h - vy)"
  by simp

lemma rotate_steps_270: "rotate_steps 270 vx vy w h = (of_int h - vy, vx)"
  by simp





















subsection \<open>Calibration points\<close>

lemma calibration_None_iff:
  "calibration m = None \<longleftrightarrow> (case m_image m of None \<Rightarrow> True | Some img \<Rightarrow> i_is_empty img)"
  by (simp add: calibration_def split: option.splits)

lemma calibration_Some:
  assumes "m_image m = Some img" and "\<not> i_is_empty img"
  shows "\<exists>a b c. calibration m = Some [a, b, c]
     \<and> cal_vacuum a = (m_calibration_center m, m_calibration_center m)
     \<and> cal_vacuum b = (m_calibration_center m + m_calibration_diff m * 10, m_calibration_center m)
     \<and> cal_vacuum c = (m_calibration_center m, m_calibration_center m + m_calibration_diff m * 10)"
  using assms by (simp add: calibration_def calibration_point_def Let_def mk_Point_def)

text \<open>
  C5. \<open>calibration\<close> returns \<open>None\<close> exactly when the image is absent or empty.
  Otherwise it returns a list of exactly three points, whose \<open>vacuum\<close> fields are
  \<open>(c, c)\<close>, \<open>(c + 10 d, c)\<close> and \<open>(c, c + 10 d)\<close> for the calibration centre \<open>c\<close> and
  step \<open>d\<close>.
\<close>

theorem calibration_three_points:
  "(calibration m = None \<longleftrightarrow> (case m_image m of None \<Rightarrow> True | Some img \<Rightarrow> i_is_empty img))
   \<and> (calibration m \<noteq> None \<longrightarrow>
        (\<exists>a b c. calibration m = Some [a, b, c]
           \<and> cal_vacuum a = (m_calibration_center m, m_calibration_center m)
           \<and> cal_vacuum b = (m_calibration_center m + m_calibration_diff m * 10,
                             m_calibration_center m)
           \<and> cal_vacuum c = (m_calibration_center m,
                             m_calibration_center m + m_calibration_diff m * 10)))"
proof (intro conjI impI)
  show "calibration m = None \<longleftrightarrow> (case m_image m of None \<Rightarrow> True | Some img \<Rightarrow> i_is_empty img)"
    by (rule calibration_None_iff)
next
  assume "calibration m \<noteq> None"
  then obtain img where "m_image m = Some img" and "\<not> i_is_empty img"
    by (auto simp add: calibration_None_iff split: option.splits)
  then show "\<exists>a b c. calibration m = Some [a, b, c]
           \<and> cal_vacuum a = (m_calibration_center m, m_calibration_center m)
           \<and> cal_vacuum b = (m_calibration_center m + m_calibration_diff m * 10,
                             m_calibration_center m)
           \<and> cal_vacuum c = (m_calibration_center m,
                             m_calibration_center m + m_calibration_diff m * 10)"
    by (rule calibration_Some)
qed

lemma example_map_calibrated: "calibration example_map \<noteq> None"
  by (simp add: calibration_None_iff example_map_def example_image_def ImageData_init_def
      MapData_init_def Let_def)

theorem calibration_three_points_witness:
  "calibration example_map \<noteq> None
   \<and> map cal_vacuum (the (calibration example_map)) = [(0, 0), (10, 0), (0, 10)]
   \<and> calibration (MapData_init 0 1) = None"
proof -
  have ne: "calibration example_map \<noteq> None" by (rule example_map_calibrated)
  have c: "m_calibration_center example_map = 0" "m_calibration_diff example_map = 1"
    by (simp_all add: example_map_def MapData_init_def)
  from calibration_three_points [of example_map] ne c
  have "map cal_vacuum (the (calibration example_map)) = [(0, 0), (10, 0), (0, 10)]"
    by auto
  moreover from calibration_three_points [of "MapData_init 0 1"]
  have "calibration (MapData_init 0 1) = None" by (simp add: MapData_init_def)
  ultimately show ?thesis using ne by simp
qed

text \<open>
  C10. The \<open>is_empty\<close> flag of a constructed \<open>ImageData\<close> is true exactly when the
  source height or the source width is 0, whatever the trim configuration; so for a
  source of non-zero height and width \<open>calibration\<close> returns its three points, also
  when trimming leaves a width or height of 0.
\<close>

theorem is_empty_from_untrimmed:
  "(i_is_empty (ImageData_init sz tp lf h w cfg data tr layers) \<longleftrightarrow> h = 0 \<or> w = 0)
   \<and> (h \<noteq> 0 \<and> w \<noteq> 0 \<longrightarrow>
        (\<exists>a b c. calibration (m\<lparr>m_image := Some (ImageData_init sz tp lf h w cfg data tr layers)\<rparr>)
                   = Some [a, b, c]))"
  by (simp add: ImageData_init_def calibration_def Let_def)

theorem is_empty_from_untrimmed_witness:
  "d_width (i_dimensions trimmed_image) = 0
   \<and> \<not> i_is_empty trimmed_image
   \<and> (\<exists>a b c. calibration ((MapData_init 0 1)\<lparr>m_image := Some trimmed_image\<rparr>) = Some [a, b, c])"
  using is_empty_from_untrimmed [of 8000 0 0 100 80
     "\<lparr>cfg_scale = 1, cfg_rotate = 0,
      cfg_trim = \<lparr>trim_left = 50, trim_right = 50, trim_top = 0, trim_bottom = 0\<rparr>\<rparr>"
     "Given 0 (80, 100)" "\<lambda>p. p" None "MapData_init 0 1"]
  by (simp add: trimmed_image_def ImageData_init_def Let_def py_int_def)

subsection \<open>Colours\<close>





lemma mop_path_member: "SupportedColor_MOP_PATH \<in> set SupportedColor_members"
  by (simp add: SupportedColor_members_def)







lemma ROOM_COLORS_length: "int (length ROOM_COLORS) = 16"
  by (simp add: ROOM_COLORS_def)

lemma room_key_found:
  assumes "1 \<le> k" and "k \<le> 16"
  shows "\<exists>c. map_of ROOM_COLORS (py_str k) = Some c"
proof -
  from assms have "k = 1 \<or> k = 2 \<or> k = 3 \<or> k = 4 \<or> k = 5 \<or> k = 6 \<or> k = 7 \<or> k = 8
      \<or> k = 9 \<or> k = 10 \<or> k = 11 \<or> k = 12 \<or> k = 13 \<or> k = 14 \<or> k = 15 \<or> k = 16"
    by arith
  then show ?thesis
    by (elim disjE) (simp_all add: ROOM_COLORS_def py_str_def digit_char_def)
qed

lemma room_color_in_range:
  assumes "1 \<le> k" and "k \<le> 16"
  shows "get_room_color f pal r (IntId k) = get_room_color f pal r' (IntId k)"
proof -
  from room_key_found [OF assms] obtain c where "map_of ROOM_COLORS (py_str k) = Some c" ..
  with assms show ?thesis
    by (simp add: get_room_color_def ROOM_COLORS_length dict_get_def Let_def split: option.split)
qed

text \<open>
  C4, amended. For every integer room id greater than 16, \<open>get_room_color\<close> returns
  the colour it returns for \<open>((id - 1) mod 16) + 1\<close>, whatever the random source
  yields in either call; and a string id that \<open>int\<close> reads as \<open>k\<close> gives what the
  integer \<open>k\<close> gives. An id below 1 is not wrapped.
\<close>

theorem room_color_wraps_above_16:
  "(16 < n \<longrightarrow>
      get_room_color f pal r (IntId n) = get_room_color f pal r' (IntId ((n - 1) mod 16 + 1)))
   \<and> (\<forall>k. f s = Some k \<longrightarrow> get_room_color f pal r (StrId s) = get_room_color f pal r (IntId k))"
proof (intro conjI impI allI)
  assume big: "16 < n"
  define k where "k = (n - 1) mod 16 + 1"
  have range: "1 \<le> k" "k \<le> 16" by (simp_all add: k_def)
  have "get_room_color f pal r (IntId n) = get_room_color f pal r (IntId k)"
    using big range by (simp add: get_room_color_def ROOM_COLORS_length Let_def k_def)
  also have "\<dots> = get_room_color f pal r' (IntId k)"
    using range by (rule room_color_in_range)
  finally show "get_room_color f pal r (IntId n)
      = get_room_color f pal r' (IntId ((n - 1) mod 16 + 1))"
    by (simp add: k_def)
next
  fix k assume "f s = Some k"
  then show "get_room_color f pal r (StrId s) = get_room_color f pal r (IntId k)"
    by (simp add: get_room_color_def)
qed

theorem room_color_wraps_above_16_witness:
  "get_room_color decimal_int (ColorsPalette_init None None) 5 (IntId 17)
     = get_room_color decimal_int (ColorsPalette_init None None) 9 (IntId 1)
   \<and> get_room_color decimal_int (ColorsPalette_init None None) 5 (IntId 32)
     = get_room_color decimal_int (ColorsPalette_init None None) 9 (IntId 16)
   \<and> get_room_color decimal_int (ColorsPalette_init None None) 5 (StrId ''17'')
     = get_room_color decimal_int (ColorsPalette_init None None) 5 (IntId 17)"
  using room_color_wraps_above_16 [of 17 decimal_int "ColorsPalette_init None None" 5 9 "''17''"]
    room_color_wraps_above_16 [of 32 decimal_int "ColorsPalette_init None None" 5 9 "''17''"]
  by (simp add: decimal_int_def)

text \<open>
  The room id 0 lies outside 1..16 and \<open>((0 - 1) mod 16) + 1 = 16\<close>, but the code
  wraps only ids above 16: with no overrides, and 1 drawn by the random source, id 0
  gets the colour of room 1 and id 16 its own.
\<close>

theorem room_color_zero_counterexample:
  "get_room_color decimal_int (ColorsPalette_init None None) 1 (IntId 0)
     \<noteq> get_room_color decimal_int (ColorsPalette_init None None) 1 (IntId ((0 - 1) mod 16 + 1))"
  by (simp add: get_room_color_def ColorsPalette_init_def dict_get_def ROOM_COLORS_def py_str_def
      digit_char_def Let_def)

lemma room_color_zero_value:
  "get_room_color decimal_int (ColorsPalette_init None None) 1 (IntId 0) = Inr (RGB 240 178 122)
   \<and> get_room_color decimal_int (ColorsPalette_init None None) 1 (IntId 16) = Inr (RGB 165 105 189)"
  by (simp add: get_room_color_def ColorsPalette_init_def dict_get_def ROOM_COLORS_def py_str_def
      digit_char_def Let_def)

subsection \<open>The placeholder picture\<close>

text \<open>
  C8. \<open>create_empty_map_image\<close> makes a new 300 by 200 picture of mode RGBA filled with
  the palette's "outside map" colour and draws the caption once, in the default font,
  with its bounding box centred in the picture; the caption is black exactly when the
  red, green and blue channels of the background sum to more than 382, and white
  exactly when they do not.
\<close>

theorem empty_map_image_shape:
  "\<exists>l t r b text_color.
     textbbox pil txt None = (l, t, r, b)
     \<and> create_empty_map_image pil g txt
         = Drawn (New ''RGBA'' (300, 200) (get_color (g_palette g) SupportedColor_MAP_OUTSIDE))
             (DrawText ((300 - (r - l)) / 2, (200 - (b - t)) / 2) txt None text_color)
     \<and> raster_size pil (create_empty_map_image pil g txt) = (300, 200)
     \<and> (text_color = RGB 0 0 0 \<longleftrightarrow>
          382 < color_red (get_color (g_palette g) SupportedColor_MAP_OUTSIDE)
              + color_green (get_color (g_palette g) SupportedColor_MAP_OUTSIDE)
              + color_blue (get_color (g_palette g) SupportedColor_MAP_OUTSIDE))
     \<and> (text_color = RGB 255 255 255 \<longleftrightarrow>
          \<not> 382 < color_red (get_color (g_palette g) SupportedColor_MAP_OUTSIDE)
              + color_green (get_color (g_palette g) SupportedColor_MAP_OUTSIDE)
              + color_blue (get_color (g_palette g) SupportedColor_MAP_OUTSIDE))"
proof -
  obtain l t r b where bb: "textbbox pil txt None = (l, t, r, b)"
    by (cases "textbbox pil txt None") auto
  show ?thesis
    using bb by (simp add: create_empty_map_image_def gen_get_color_def Let_def)
qed

theorem empty_map_image_shape_witness:
  "create_empty_map_image plain_pillow (default_generator []) ''NO MAP''
     = Drawn (New ''RGBA'' (300, 200) (RGB 19 87 148))
         (DrawText (132, 189 / 2) ''NO MAP'' None (RGB 255 255 255))
   \<and> create_empty_map_image plain_pillow light_generator ''NO MAP''
     = Drawn (New ''RGBA'' (300, 200) (RGB 200 200 200))
         (DrawText (132, 189 / 2) ''NO MAP'' None (RGB 0 0 0))"
proof -
  have c1: "get_color (g_palette (default_generator [])) SupportedColor_MAP_OUTSIDE
      = RGB 19 87 148"
    by (simp add: default_generator_def get_color_def ColorsPalette_init_def dict_get_def
        COLORS_def)
  have c2: "get_color (g_palette light_generator) SupportedColor_MAP_OUTSIDE = RGB 200 200 200"
    by (simp add: light_generator_def default_generator_def get_color_def ColorsPalette_init_def
        dict_get_def)
  have bb: "textbbox plain_pillow ''NO MAP'' None = (0, 0, 36, 11)"
    by (simp add: plain_pillow_def)
  from empty_map_image_shape [of plain_pillow "''NO MAP''" "default_generator []"] c1 bb
  have "create_empty_map_image plain_pillow (default_generator []) ''NO MAP''
     = Drawn (New ''RGBA'' (300, 200) (RGB 19 87 148))
         (DrawText (132, 189 / 2) ''NO MAP'' None (RGB 255 255 255))"
    by auto
  moreover from empty_map_image_shape [of plain_pillow "''NO MAP''" light_generator] c2 bb
  have "create_empty_map_image plain_pillow light_generator ''NO MAP''
     = Drawn (New ''RGBA'' (300, 200) (RGB 200 200 200))
         (DrawText (132, 189 / 2) ''NO MAP'' None (RGB 0 0 0))"
    by auto
  ultimately show ?thesis by simp
qed

subsection \<open>Paths\<close>

lemma segment_calls_later:
  assumes "coords_set \<or> \<not> path_width > 4"
  shows "segment_calls d scale path_width color s coords_set rest
     = later_segments color (py_int (scale * path_width)) (path_width > 4)
         (scale * path_width / 2) s (map (\<lambda>p. point_mul (to_img d p) scale) rest)"
  using assms
proof (induction rest arbitrary: s coords_set)
  case Nil
  then show ?case by (simp add: later_segments_def)
next
  case (Cons point rest)
  have "(coords_set \<or> path_width > 4) \<or> \<not> path_width > 4" by blast
  from Cons.IH [OF this] Cons.prems show ?case
    by (auto simp add: later_segments_def path_line_def Let_def)
qed

lemma polyline_calls_short:
  assumes "length ps \<le> 1"
  shows "polyline_calls d scale path_width color ps = []"
  using assms by (cases ps; cases "tl ps") (auto simp add: polyline_calls_def)

lemma polyline_calls_specified:
  "polyline_calls d scale path_width color ps
     = polyline_as_specified color (py_int (scale * path_width)) (path_width > 4)
         (scale * path_width / 2) (map (\<lambda>p. point_mul (to_img d p) scale) ps)"
proof (cases ps)
  case Nil
  then show ?thesis by (simp add: polyline_calls_def polyline_as_specified_def)
next
  case (Cons p0 ps1)
  show ?thesis
  proof (cases ps1)
    case Nil
    with Cons show ?thesis by (simp add: polyline_calls_def polyline_as_specified_def)
  next
    case (Cons p1 ps2)
    have later: "segment_calls d scale path_width color (point_mul (to_img d p1) scale)
        (path_width > 4) ps2
       = later_segments color (py_int (scale * path_width)) (path_width > 4)
           (scale * path_width / 2) (point_mul (to_img d p1) scale)
           (map (\<lambda>p. point_mul (to_img d p) scale) ps2)"
      by (rule segment_calls_later) blast
    from \<open>ps = p0 # ps1\<close> Cons later show ?thesis
      by (simp add: polyline_calls_def polyline_as_specified_def path_line_def Let_def)
  qed
qed

text \<open>
  C9, amended. The calls of the path renderer are those of the polylines of the path, in
  order. A polyline of at least two points is drawn as straight segments between
  consecutive points, of pixel width \<open>int(scale * w)\<close>, the product cut to an integer;
  full circles of radius \<open>scale * w / 2\<close> are added at the ends of the segments
  exactly when \<open>w > 4\<close>; an empty polyline and a polyline of one point give no call.
\<close>

theorem path_renderer_calls:
  "path_draw_func d scale path_width color path
     = concat (map (polyline_calls d scale path_width color) (path_path path))
   \<and> polyline_calls d scale path_width color ps
     = polyline_as_specified color (py_int (scale * path_width)) (path_width > 4)
         (scale * path_width / 2) (map (\<lambda>p. point_mul (to_img d p) scale) ps)
   \<and> (length ps \<le> 1 \<longrightarrow> polyline_calls d scale path_width color ps = [])"
  using polyline_calls_specified [of d scale path_width color ps]
    polyline_calls_short [of ps d scale path_width color]
  by (simp add: path_draw_func_def)

theorem path_renderer_calls_witness:
  "path_draw_func example_dims 1 1 (RGB 147 194 238)
       (example_path [[mk_Point 0 0, mk_Point 10 0], [], [mk_Point 5 5]])
     = [DrawLine [0, 99, 10, 99] (RGB 147 194 238) 1]
   \<and> polyline_calls example_dims 1 6 (RGB 0 255 0) [mk_Point 0 0, mk_Point 10 0, mk_Point 10 10]
     = [DrawLine [0, 99, 10, 99] (RGB 0 255 0) 6,
        DrawPieslice ((- 3, 96), (3, 102)) 0 360 (RGB 0 255 0) (RGB 0 255 0),
        DrawPieslice ((7, 96), (13, 102)) 0 360 (RGB 0 255 0) (RGB 0 255 0),
        DrawLine [10, 99, 10, 89] (RGB 0 255 0) 6,
        DrawPieslice ((7, 86), (13, 92)) 0 360 (RGB 0 255 0) (RGB 0 255 0)]
   \<and> polyline_calls example_dims 1 6 (RGB 0 255 0) [mk_Point 5 5] = []
   \<and> polyline_calls example_dims 1 6 (RGB 0 255 0) [] = []"
  using path_renderer_calls [of example_dims 1 1 "RGB 147 194 238"
      "example_path [[mk_Point 0 0, mk_Point 10 0], [], [mk_Point 5 5]]"
      "[mk_Point 0 0, mk_Point 10 0]"]
    path_renderer_calls [of example_dims 1 1 "RGB 147 194 238" "example_path []" "[]"]
    path_renderer_calls [of example_dims 1 1 "RGB 147 194 238" "example_path []" "[mk_Point 5 5]"]
    path_renderer_calls [of example_dims 1 6 "RGB 0 255 0" "example_path []"
      "[mk_Point 0 0, mk_Point 10 0, mk_Point 10 10]"]
    path_renderer_calls [of example_dims 1 6 "RGB 0 255 0" "example_path []" "[mk_Point 5 5]"]
    path_renderer_calls [of example_dims 1 6 "RGB 0 255 0" "example_path []" "[]"]
  by (simp add: example_path_def polyline_as_specified_def later_segments_def path_line_def
      end_cap_def example_dims_def to_img_def point_mul_def mk_Point_def py_int_def)

text \<open>
  With scale 3/2 and the default path width 1, the segment from \<open>(0, 0)\<close> to \<open>(10, 0)\<close>
  is drawn with width \<open>int(1.5) = 1\<close>, not \<open>1.5\<close>.
\<close>

theorem path_width_truncated_counterexample:
  "path_draw_func scaled_dims (3 / 2) 1 (RGB 147 194 238)
       (example_path [[mk_Point 0 0, mk_Point 10 0]])
     = [DrawLine [0, 891 / 4, 45 / 2, 891 / 4] (RGB 147 194 238) 1]
   \<and> real_of_int 1 \<noteq> 3 / 2 * 1"
  by (simp add: path_draw_func_def polyline_calls_def example_path_def scaled_dims_def
      example_dims_def to_img_def point_mul_def mk_Point_def py_int_def)

subsection \<open>Absent elements\<close>

lemma same_image: "m_image m = Some img \<Longrightarrow> m\<lparr>m_image := Some img\<rparr> = m"
  by (cases m) simp

lemma draw_nothing: "draw_on_new_layer pil img [] scale use_transp = img"
  by (simp add: draw_on_new_layer_def draw_calls_def draw_layer_with_alpha_def
      alpha_composite_def Let_def)

lemma draw_path_empty: "path_path path = [] \<Longrightarrow> draw_path pil g img path w color = img"
  by (simp add: draw_path_def)

lemma draw_areas_empty: "draw_areas pil img [] fill outline = img"
  by (simp add: draw_areas_def)

lemma draw_all_obstacles_empty: "draw_all_obstacles pil img [] radius color = img"
  by (simp add: draw_all_obstacles_def)

lemma no_charger: "m_charger m = None \<Longrightarrow> draw_charger pil g m = m"
  by (simp add: draw_charger_def)

lemma no_vacuum_position: "m_vacuum_position m = None \<Longrightarrow> draw_vacuum_position pil g m = m"
  by (simp add: draw_vacuum_position_def)

lemma no_obstacles:
  "m_obstacles m = None \<or> m_obstacles m = Some [] \<Longrightarrow> draw_obstacles pil g m = m"
  by (auto simp add: draw_obstacles_def draw_all_obstacles_empty same_image split: option.splits)

lemma no_ignored_obstacles:
  "m_ignored_obstacles m = None \<or> m_ignored_obstacles m = Some []
   \<Longrightarrow> draw_ignored_obstacles pil g m = m"
  by (auto simp add: draw_ignored_obstacles_def draw_all_obstacles_empty same_image
      split: option.splits)

lemma no_obstacles_with_photo:
  "m_obstacles_with_photo m = None \<or> m_obstacles_with_photo m = Some []
   \<Longrightarrow> draw_obstacles_with_photo pil g m = m"
  by (auto simp add: draw_obstacles_with_photo_def draw_all_obstacles_empty same_image
      split: option.splits)

lemma no_ignored_obstacles_with_photo:
  "m_ignored_obstacles_with_photo m = None \<or> m_ignored_obstacles_with_photo m = Some []
   \<Longrightarrow> draw_ignored_obstacles_with_photo pil g m = m"
  by (auto simp add: draw_ignored_obstacles_with_photo_def draw_all_obstacles_empty same_image
      split: option.splits)

lemma no_vacuum_path:
  "m_path m = None \<or> (\<exists>p. m_path m = Some p \<and> path_path p = [])
   \<Longrightarrow> draw_vacuum_path pil g m = m"
  by (auto simp add: draw_vacuum_path_def draw_path_empty same_image split: option.splits)

lemma no_goto_path:
  "m_goto_path m = None \<or> (\<exists>p. m_goto_path m = Some p \<and> path_path p = [])
   \<Longrightarrow> draw_goto_path pil g m = m"
  by (auto simp add: draw_goto_path_def draw_path_empty same_image split: option.splits)

lemma no_predicted_path:
  "m_predicted_path m = None \<or> (\<exists>p. m_predicted_path m = Some p \<and> path_path p = [])
   \<Longrightarrow> draw_predicted_path pil g m = m"
  by (auto simp add: draw_predicted_path_def draw_path_empty same_image split: option.splits)

lemma no_mop_path:
  "m_mop_path m = None \<or> (\<exists>p. m_mop_path m = Some p \<and> path_path p = [])
   \<Longrightarrow> draw_mop_path pil g m = m"
  by (auto simp add: draw_mop_path_def draw_path_empty same_image split: option.splits)

lemma no_no_carpet_areas:
  "m_no_carpet_areas m = None \<or> m_no_carpet_areas m = Some []
   \<Longrightarrow> draw_no_carpet_areas pil g m = m"
  by (auto simp add: draw_no_carpet_areas_def draw_areas_empty same_image split: option.splits)

lemma no_no_go_areas:
  "m_no_go_areas m = None \<or> m_no_go_areas m = Some [] \<Longrightarrow> draw_no_go_areas pil g m = m"
  by (auto simp add: draw_no_go_areas_def draw_areas_empty same_image split: option.splits)

lemma no_no_mopping_areas:
  "m_no_mopping_areas m = None \<or> m_no_mopping_areas m = Some []
   \<Longrightarrow> draw_no_mopping_areas pil g m = m"
  by (auto simp add: draw_no_mopping_areas_def draw_areas_empty same_image split: option.splits)

lemma no_walls: "m_walls m = None \<or> m_walls m = Some [] \<Longrightarrow> draw_walls pil g m = m"
  by (auto simp add: draw_walls_def draw_nothing same_image Let_def split: option.splits)

lemma no_zones: "m_zones m = None \<or> m_zones m = Some [] \<Longrightarrow> draw_zones pil g m = m"
  by (auto simp add: draw_zones_def draw_areas_empty same_image split: option.splits)

lemma no_rooms: "m_rooms m = None \<or> m_rooms m = Some [] \<Longrightarrow> draw_room_names pil g m = m"
  by (auto simp add: draw_room_names_def same_image Let_def split: option.splits)

lemma no_layer:
  "(\<forall>img. m_image m = Some img \<longrightarrow> i_additional_layers img Drawable_CLEANED_AREA = None)
   \<Longrightarrow> draw_layer m Drawable_CLEANED_AREA = m"
  by (auto simp add: draw_layer_def split: option.splits)

lemma no_image:
  assumes "m_image m = None"
  shows "draw_charger pil g m = m"
    and "draw_vacuum_position pil g m = m"
    and "draw_obstacles pil g m = m"
    and "draw_ignored_obstacles pil g m = m"
    and "draw_obstacles_with_photo pil g m = m"
    and "draw_ignored_obstacles_with_photo pil g m = m"
    and "draw_mop_path pil g m = m"
    and "draw_vacuum_path pil g m = m"
    and "draw_goto_path pil g m = m"
    and "draw_predicted_path pil g m = m"
    and "draw_no_carpet_areas pil g m = m"
    and "draw_no_go_areas pil g m = m"
    and "draw_no_mopping_areas pil g m = m"
    and "draw_walls pil g m = m"
    and "draw_zones pil g m = m"
    and "draw_room_names pil g m = m"
    and "draw_layer m layer_name = m"
  using assms
  by (simp_all add: draw_charger_def draw_vacuum_position_def draw_obstacles_def
      draw_ignored_obstacles_def draw_obstacles_with_photo_def
      draw_ignored_obstacles_with_photo_def draw_mop_path_def
      draw_vacuum_path_def draw_goto_path_def draw_predicted_path_def
      draw_no_carpet_areas_def draw_no_go_areas_def
      draw_no_mopping_areas_def draw_walls_def draw_zones_def
      draw_room_names_def draw_layer_def
      split: option.splits)

lemma no_image_drawable: "m_image m = None \<Longrightarrow> draw_drawable pil g m drawable = m"
  by (simp add: draw_drawable_def no_image)

lemma no_image_map: "m_image m = None \<Longrightarrow> draw_map pil g m = m"
  by (simp add: draw_map_def)

text \<open>
  C6. On a map without image \<open>draw_map\<close> returns the map as it is, having drawn,
  rotated and written nothing, and so does every case of its dispatch. Every element
  renderer returns the map as it is when the field it draws is \<open>None\<close>, and also when
  the list it draws is empty (for a path: when it has no polyline; for the layer
  renderer: when the picture has no layer of that name). The renderers are total
  functions: none of these calls raises.
\<close>

theorem absent_elements_are_no_ops:
  "(m_image m = None \<longrightarrow>
      draw_map pil g m = m \<and> (\<forall>drawable. draw_drawable pil g m drawable = m))
   \<and> (m_charger m = None \<longrightarrow> draw_charger pil g m = m)
   \<and> (m_vacuum_position m = None \<longrightarrow> draw_vacuum_position pil g m = m)
   \<and> (m_obstacles m = None \<or> m_obstacles m = Some [] \<longrightarrow> draw_obstacles pil g m = m)
   \<and> (m_ignored_obstacles m = None \<or> m_ignored_obstacles m = Some [] \<longrightarrow>
        draw_ignored_obstacles pil g m = m)
   \<and> (m_obstacles_with_photo m = None \<or> m_obstacles_with_photo m = Some [] \<longrightarrow>
        draw_obstacles_with_photo pil g m = m)
   \<and> (m_ignored_obstacles_with_photo m = None \<or> m_ignored_obstacles_with_photo m = Some [] \<longrightarrow>
        draw_ignored_obstacles_with_photo pil g m = m)
   \<and> (m_path m = None \<or> (\<exists>p. m_path m = Some p \<and> path_path p = []) \<longrightarrow>
        draw_vacuum_path pil g m = m)
   \<and> (m_goto_path m = None \<or> (\<exists>p. m_goto_path m = Some p \<and> path_path p = []) \<longrightarrow>
        draw_goto_path pil g m = m)
   \<and> (m_predicted_path m = None \<or> (\<exists>p. m_predicted_path m = Some p \<and> path_path p = []) \<longrightarrow>
        draw_predicted_path pil g m = m)
   \<and> (m_mop_path m = None \<or> (\<exists>p. m_mop_path m = Some p \<and> path_path p = []) \<longrightarrow>
        draw_mop_path pil g m = m)
   \<and> (m_no_carpet_areas m = None \<or> m_no_carpet_areas m = Some [] \<longrightarrow>
        draw_no_carpet_areas pil g m = m)
   \<and> (m_no_go_areas m = None \<or> m_no_go_areas m = Some [] \<longrightarrow> draw_no_go_areas pil g m = m)
   \<and> (m_no_mopping_areas m = None \<or> m_no_mopping_areas m = Some [] \<longrightarrow>
        draw_no_mopping_areas pil g m = m)
   \<and> (m_walls m = None \<or> m_walls m = Some [] \<longrightarrow> draw_walls pil g m = m)
   \<and> (m_zones m = None \<or> m_zones m = Some [] \<longrightarrow> draw_zones pil g m = m)
   \<and> (m_rooms m = None \<or> m_rooms m = Some [] \<longrightarrow> draw_room_names pil g m = m)
   \<and> ((\<forall>img. m_image m = Some img \<longrightarrow> i_additional_layers img Drawable_CLEANED_AREA = None) \<longrightarrow>
        draw_layer m Drawable_CLEANED_AREA = m)"
  by (intro conjI impI allI)
    (erule no_image_map no_image_drawable no_charger no_vacuum_position no_obstacles
      no_ignored_obstacles no_obstacles_with_photo no_ignored_obstacles_with_photo
      no_vacuum_path no_goto_path no_predicted_path no_mop_path no_no_carpet_areas
      no_no_go_areas no_no_mopping_areas no_walls no_zones no_rooms no_layer)+

theorem absent_elements_are_no_ops_witness:
  "draw_map plain_pillow (default_generator [Drawable_PATH, Drawable_CHARGER]) (MapData_init 0 1)
     = MapData_init 0 1
   \<and> draw_charger plain_pillow (default_generator []) example_map = example_map
   \<and> draw_vacuum_position plain_pillow (default_generator []) example_map = example_map
   \<and> draw_vacuum_path plain_pillow (default_generator []) example_map = example_map
   \<and> draw_layer example_map Drawable_CLEANED_AREA = example_map
   \<and> draw_obstacles plain_pillow (default_generator []) empty_lists_map = empty_lists_map
   \<and> draw_vacuum_path plain_pillow (default_generator []) empty_lists_map = empty_lists_map
   \<and> draw_no_go_areas plain_pillow (default_generator []) empty_lists_map = empty_lists_map
   \<and> draw_walls plain_pillow (default_generator []) empty_lists_map = empty_lists_map
   \<and> draw_zones plain_pillow (default_generator []) empty_lists_map = empty_lists_map
   \<and> draw_room_names plain_pillow (default_generator []) empty_lists_map = empty_lists_map"
proof -
  have none: "m_image (MapData_init 0 1) = None"
    by (simp add: MapData_init_def)
  have absent: "m_charger example_map = None" "m_vacuum_position example_map = None"
    "m_path example_map = None"
    "\<forall>img. m_image example_map = Some img
       \<longrightarrow> i_additional_layers img Drawable_CLEANED_AREA = None"
    by (simp_all add: example_map_def MapData_init_def example_image_def ImageData_init_def
        Let_def)
  have empty: "m_obstacles empty_lists_map = Some []"
    "\<exists>p. m_path empty_lists_map = Some p \<and> path_path p = []"
    "m_no_go_areas empty_lists_map = Some []" "m_walls empty_lists_map = Some []"
    "m_zones empty_lists_map = Some []" "m_rooms empty_lists_map = Some []"
    by (simp_all add: empty_lists_map_def example_path_def)
  from none absent empty
    absent_elements_are_no_ops
      [of "MapData_init 0 1" plain_pillow "default_generator [Drawable_PATH, Drawable_CHARGER]"]
    absent_elements_are_no_ops [of example_map plain_pillow "default_generator []"]
    absent_elements_are_no_ops [of empty_lists_map plain_pillow "default_generator []"]
  show ?thesis by simp
qed

subsection \<open>What drawing changes\<close>

lemma vacuum_draw_func_position:
  "fst (vacuum_draw_func d pos r outline fill)
     = (if p_a pos = None then pos\<lparr>p_a := Some 0\<rparr> else pos)"
  by (simp add: vacuum_draw_func_def Let_def)

lemma draw_vacuum_position_heading:
  assumes "m_vacuum_position m = Some pos" and "m_image m = Some img"
  shows "m_vacuum_position (draw_vacuum_position pil g m)
     = Some (if p_a pos = None then pos\<lparr>p_a := Some 0\<rparr> else pos)"
    and "m_image (draw_vacuum_position pil g m) \<noteq> None"
  using assms vacuum_draw_func_position [of "i_dimensions img" pos]
  by (simp_all add: draw_vacuum_position_def draw_vacuum_def Let_def split_beta)

text \<open>
  C3. \<open>draw_map\<close> is to change nothing but the pixel buffer. On a map whose vacuum
  position has no heading, drawn with the vacuum position among the drawables, it
  returns a map whose vacuum position has heading 0: the closure of \<open>_draw_vacuum\<close>
  assigns to \<open>vacuum_pos.a\<close>, where \<open>_draw_pieslice\<close> takes a local default.
\<close>

theorem draw_map_sets_vacuum_heading:
  "m_vacuum_position heading_map = Some (mk_Point 5 5)
   \<and> p_a (mk_Point 5 5) = None
   \<and> m_vacuum_position
        (draw_map plain_pillow (default_generator [Drawable_VACUUM_POSITION]) heading_map)
      = Some headed_position"
proof -
  have pos: "m_vacuum_position heading_map = Some (mk_Point 5 5)"
    and img: "m_image heading_map = Some example_image"
    by (simp_all add: heading_map_def example_map_def)
  note step = draw_vacuum_position_heading [OF pos img,
      of plain_pillow "default_generator [Drawable_VACUUM_POSITION]"]
  have "m_vacuum_position
        (draw_map plain_pillow (default_generator [Drawable_VACUUM_POSITION]) heading_map)
      = m_vacuum_position
          (draw_vacuum_position plain_pillow (default_generator [Drawable_VACUUM_POSITION])
             heading_map)"
    using img step(2)
    by (auto simp add: draw_map_def draw_drawable_def default_generator_def Let_def
        split: option.splits)
  with step(1) pos show ?thesis
    by (simp add: mk_Point_def headed_position_def)
qed

end
